theory Spec2Isabelle
  imports Main "HOL-Library.AList"
begin

section \<open>Shared Python gateway coordinator\<close>

text \<open>
  A shallow embedding of the shared gateway coordinator: the module that lets several
  command-line invocations share one kernel-gateway subprocess through a record on disk
  (\<^verbatim>\<open>gateway.json\<close>), a reference count in that record, liveness probing and an
  idle-shutdown timer.
\<close>

subsection \<open>Constants\<close>

definition GATEWAY_STARTUP_TIMEOUT_MS :: nat where
  "GATEWAY_STARTUP_TIMEOUT_MS = 30000"

definition GATEWAY_IDLE_TIMEOUT_MS :: nat where
  "GATEWAY_IDLE_TIMEOUT_MS = 30000"

definition DEFAULT_ENV_ALLOWLIST :: "string list" where
  "DEFAULT_ENV_ALLOWLIST =
    [''PATH'', ''HOME'', ''USER'', ''LOGNAME'', ''SHELL'', ''LANG'', ''LC_ALL'', ''LC_CTYPE'',
     ''LC_MESSAGES'', ''TERM'', ''TERM_PROGRAM'', ''TERM_PROGRAM_VERSION'', ''TMPDIR'', ''TEMP'',
     ''TMP'', ''XDG_CACHE_HOME'', ''XDG_CONFIG_HOME'', ''XDG_DATA_HOME'', ''XDG_RUNTIME_DIR'',
     ''SSH_AUTH_SOCK'', ''SSH_AGENT_PID'', ''CONDA_PREFIX'', ''CONDA_DEFAULT_ENV'',
     ''VIRTUAL_ENV'', ''PYTHONPATH'']"

definition DEFAULT_ENV_ALLOW_PREFIXES :: "string list" where
  "DEFAULT_ENV_ALLOW_PREFIXES = [''LC_'', ''XDG_'', ''OMP_'']"

definition DEFAULT_ENV_DENYLIST :: "string list" where
  "DEFAULT_ENV_DENYLIST =
    [''OPENAI_API_KEY'', ''ANTHROPIC_API_KEY'', ''GOOGLE_API_KEY'', ''GEMINI_API_KEY'',
     ''OPENROUTER_API_KEY'', ''PERPLEXITY_API_KEY'', ''EXA_API_KEY'', ''AZURE_OPENAI_API_KEY'',
     ''MISTRAL_API_KEY'']"

subsection \<open>Environments\<close>

text \<open>
  A \<^verbatim>\<open>Record<string, string | undefined>\<close> is an association list in insertion order;
  \<open>None\<close> is a key whose value is \<^verbatim>\<open>undefined\<close>. Assigning a property is
  \<^const>\<open>AList.update\<close>: an existing key keeps its place, a new key goes last.
\<close>

type_synonym env = "(string \<times> string option) list"

definition env_get :: "env \<Rightarrow> string \<Rightarrow> string option" where
  \<comment> \<open>\<^verbatim>\<open>env.KEY\<close>: \<^verbatim>\<open>undefined\<close> when the key is missing or holds \<^verbatim>\<open>undefined\<close>\<close>
  "env_get e k = (case map_of e k of None \<Rightarrow> None | Some v \<Rightarrow> v)"

definition truthy :: "string option \<Rightarrow> bool" where
  \<comment> \<open>JavaScript truthiness of a \<^verbatim>\<open>string | null | undefined\<close>\<close>
  "truthy v = (case v of None \<Rightarrow> False | Some s \<Rightarrow> s \<noteq> [])"

definition startsWith :: "string \<Rightarrow> string \<Rightarrow> bool" where
  "startsWith key pre = (take (length pre) key = pre)"

text \<open>One turn of the loop of \<^verbatim>\<open>filterEnv\<close> over \<^verbatim>\<open>Object.entries(env)\<close>.\<close>

definition filterEnv_entry ::
  "string list \<Rightarrow> string list \<Rightarrow> string list \<Rightarrow> env \<Rightarrow> string \<times> string option \<Rightarrow> env" where
  "filterEnv_entry deny allow prefixes filtered kv =
    (case kv of (key, val) \<Rightarrow>
      (case val of
        None \<Rightarrow> filtered
      | Some v \<Rightarrow>
          if key \<in> set deny then filtered
          else if key \<in> set allow then AList.update key (Some v) filtered
          else if list_ex (\<lambda>pre. startsWith key pre) prefixes
            then AList.update key (Some v) filtered
          else filtered))"

definition filterEnvWith :: "string list \<Rightarrow> string list \<Rightarrow> string list \<Rightarrow> env \<Rightarrow> env" where
  "filterEnvWith deny allow prefixes e = foldl (filterEnv_entry deny allow prefixes) [] e"

definition filterEnv :: "env \<Rightarrow> env" where
  "filterEnv e =
    filterEnvWith DEFAULT_ENV_DENYLIST DEFAULT_ENV_ALLOWLIST DEFAULT_ENV_ALLOW_PREFIXES e"

subsection \<open>Errors\<close>

datatype error =
    PythonNotFound            \<comment> \<open>\<^verbatim>\<open>"Python executable not found on PATH"\<close>\<close>
  | GatewayExited             \<comment> \<open>\<^verbatim>\<open>"Gateway process exited during startup"\<close>\<close>
  | GatewayStartupTimeout     \<comment> \<open>\<^verbatim>\<open>"Gateway startup timeout"\<close>\<close>
  | PortAllocationFailed      \<comment> \<open>\<^verbatim>\<open>"Failed to allocate port"\<close>, or the socket's own error\<close>
  | ExternalError string      \<comment> \<open>thrown by the platform: file system, shell configuration, spawn\<close>

text \<open>How a call of an exported asynchronous function ends for its caller.\<close>

datatype 'a completion = Returned 'a | Thrown error

subsection \<open>Data\<close>

record GatewayInfo =
  url :: string
  pid :: int
  startedAt :: nat
  refCount :: int
  cwd :: string

record AcquireResult =
  acquired_url :: string
  isShared :: bool

text \<open>
  The content of \<^verbatim>\<open>gateway.json\<close>: text that \<^verbatim>\<open>JSON.parse\<close> rejects, or a record.
\<close>

datatype gateway_file = Malformed | Parsed GatewayInfo

text \<open>
  The gateway directory of the agent's state directory: missing, present without
  \<^verbatim>\<open>gateway.json\<close>, or present with it.
\<close>

datatype gateway_fs = NoDir | NoFile | File gateway_file

text \<open>One call of \<^verbatim>\<open>Bun.spawn\<close>.\<close>

record spawn_call =
  spawn_argv :: "string list"
  spawn_cwd :: string
  spawn_env :: env
  spawn_pid :: int

text \<open>
  What the coordinator reads from outside and cannot control: the process environment,
  the platform, the file system's failures, process liveness, the answers of the health
  endpoint over time, and the collaborators \<^verbatim>\<open>getShellConfig\<close>,
  \<^verbatim>\<open>getOrCreateSnapshot\<close>, \<^verbatim>\<open>Bun.which\<close>, \<^verbatim>\<open>Bun.file(p).exists()\<close>,
  \<^verbatim>\<open>allocatePort\<close> (the operating system's choice of a port) and \<^verbatim>\<open>Bun.spawn\<close>.
\<close>

record world =
  process_env :: "string \<Rightarrow> string option"
  win32 :: bool
  mkdir_fails :: "error option"
  write_fails :: "error option"
  unlink_fails :: bool
  pid_running :: "int \<Rightarrow> bool"
  probe_ok :: "string \<Rightarrow> nat \<Rightarrow> bool"
  probe_ms :: "string \<Rightarrow> nat \<Rightarrow> nat"
  exited_flag :: "int \<Rightarrow> nat \<Rightarrow> bool"
  shell_config :: "error + (string \<times> env)"
  shell_snapshot :: "string option"
  file_exists :: "string \<Rightarrow> bool"
  which :: "string \<Rightarrow> string option"
  allocate_port :: "error + nat"
  spawn :: "error + int"

text \<open>
  The module's variables (\<open>localGatewayProcess\<close> holds the subprocess by its pid), the
  clock, the gateway directory with its file, the runtime's table of pending timers (identifier
  and due time), and a log of the processes spawned and of the process trees killed.
\<close>

record state =
  localGatewayProcess :: "int option"
  localGatewayUrl :: "string option"
  idleShutdownTimer :: "nat option"
  isCoordinatorInitialized :: bool
  now :: nat
  gateway_fs :: gateway_fs
  timers :: "(nat \<times> nat) list"
  next_timer :: nat
  spawned :: "spawn_call list"
  killed :: "int list"

subsection \<open>Paths and strings\<close>

text \<open>
  \<^verbatim>\<open>join\<close> and \<^verbatim>\<open>delimiter\<close> of \<^verbatim>\<open>node:path\<close>; the normalisation that
  \<^verbatim>\<open>join\<close> also performs is left out.
\<close>

definition path_sep :: "world \<Rightarrow> string" where
  "path_sep w = (if win32 w then [CHR 0x5C] else ''/'')"

definition path_join :: "world \<Rightarrow> string \<Rightarrow> string \<Rightarrow> string" where
  "path_join w a b = a @ path_sep w @ b"

definition delimiter :: "world \<Rightarrow> string" where
  "delimiter w = (if win32 w then '';'' else '':'')"

fun join_with :: "string \<Rightarrow> string list \<Rightarrow> string" where
  "join_with d [] = []"
| "join_with d [x] = x"
| "join_with d (x # y # ys) = x @ d @ join_with d (y # ys)"

fun string_of_nat :: "nat \<Rightarrow> string" where
  "string_of_nat n =
    (if n < 10 then [''0123456789'' ! n]
     else string_of_nat (n div 10) @ [''0123456789'' ! (n mod 10)])"

declare string_of_nat.simps [simp del]

subsection \<open>The runtime resolver\<close>

definition resolveVenvPath :: "world \<Rightarrow> string \<Rightarrow> string option" where
  "resolveVenvPath w wd =
    (if truthy (process_env w ''VIRTUAL_ENV'') then process_env w ''VIRTUAL_ENV''
     else find (file_exists w) [path_join w wd ''.venv'', path_join w wd ''venv''])"

text \<open>The fall-back of \<^verbatim>\<open>resolvePythonRuntime\<close>: a runtime on the search path.\<close>

definition python_on_path :: "world \<Rightarrow> env \<Rightarrow> error + (string \<times> env)" where
  "python_on_path w e =
    (let pythonPath = (case which w ''python'' of Some p \<Rightarrow> Some p | None \<Rightarrow> which w ''python3'')
     in case pythonPath of
          None \<Rightarrow> Inl PythonNotFound
        | Some p \<Rightarrow> if p = [] then Inl PythonNotFound else Inr (p, e))"

definition venv_bin_dir :: "world \<Rightarrow> string \<Rightarrow> string" where
  "venv_bin_dir w venvPath = path_join w venvPath (if win32 w then ''Scripts'' else ''bin'')"

definition venv_python :: "world \<Rightarrow> string \<Rightarrow> string" where
  "venv_python w venvPath =
    path_join w (venv_bin_dir w venvPath) (if win32 w then ''python.exe'' else ''python'')"

definition resolvePythonRuntime :: "world \<Rightarrow> string \<Rightarrow> env \<Rightarrow> error + (string \<times> env)" where
  "resolvePythonRuntime w wd baseEnv =
    (let venvPath = (case env_get baseEnv ''VIRTUAL_ENV'' of
                       Some v \<Rightarrow> Some v
                     | None \<Rightarrow> resolveVenvPath w wd)
     in case venvPath of
          None \<Rightarrow> python_on_path w baseEnv
        | Some v \<Rightarrow>
            if v = [] then python_on_path w baseEnv
            else
              (let e = AList.update ''VIRTUAL_ENV'' (Some v) baseEnv;
                   binDir = venv_bin_dir w v;
                   pythonCandidate = venv_python w v
               in if file_exists w pythonCandidate then
                    Inr (pythonCandidate,
                         AList.update ''PATH''
                           (Some (case env_get e ''PATH'' of
                                    None \<Rightarrow> binDir
                                  | Some p \<Rightarrow> if p = [] then binDir else binDir @ delimiter w @ p))
                           e)
                  else python_on_path w e))"

subsection \<open>The state store\<close>

definition ensureGatewayDir :: "world \<Rightarrow> state \<Rightarrow> error + state" where
  "ensureGatewayDir w s =
    (if gateway_fs s = NoDir then
       (case mkdir_fails w of Some e \<Rightarrow> Inl e | None \<Rightarrow> Inr (s\<lparr>gateway_fs := NoFile\<rparr>))
     else Inr s)"

definition readGatewayInfo :: "state \<Rightarrow> GatewayInfo option" where
  "readGatewayInfo s =
    (case gateway_fs s of
       NoDir \<Rightarrow> None
     | NoFile \<Rightarrow> None
     | File Malformed \<Rightarrow> None
     | File (Parsed i) \<Rightarrow> Some i)"

text \<open>\<^verbatim>\<open>writeFileSync\<close> does not create the directory of the file it writes.\<close>

definition writeGatewayInfo :: "world \<Rightarrow> GatewayInfo \<Rightarrow> state \<Rightarrow> error + state" where
  "writeGatewayInfo w i s =
    (if gateway_fs s = NoDir then Inl (ExternalError ''ENOENT'')
     else
       (case write_fails w of
          Some e \<Rightarrow> Inl e
        | None \<Rightarrow> Inr (s\<lparr>gateway_fs := File (Parsed i)\<rparr>)))"

definition clearGatewayInfo :: "world \<Rightarrow> state \<Rightarrow> state" where
  "clearGatewayInfo w s =
    (case gateway_fs s of
       File f \<Rightarrow> (if unlink_fails w then s else s\<lparr>gateway_fs := NoFile\<rparr>)
     | _ \<Rightarrow> s)"

subsection \<open>Liveness\<close>

definition isPidRunning :: "world \<Rightarrow> int \<Rightarrow> bool" where
  "isPidRunning w p = pid_running w p"

text \<open>A probe answers at the time it is sent and takes \<open>probe_ms\<close> of the clock.\<close>

definition isGatewayHealthy :: "world \<Rightarrow> string \<Rightarrow> state \<Rightarrow> bool \<times> state" where
  "isGatewayHealthy w u s = (probe_ok w u (now s), s\<lparr>now := now s + probe_ms w u (now s)\<rparr>)"

definition isGatewayAlive :: "world \<Rightarrow> GatewayInfo \<Rightarrow> state \<Rightarrow> bool \<times> state" where
  "isGatewayAlive w i s =
    (if \<not> isPidRunning w (pid i) then (False, s) else isGatewayHealthy w (url i) s)"

subsection \<open>The process launcher\<close>

text \<open>
  Modelled from the spec: \<^verbatim>\<open>killProcessTree\<close> of \<^verbatim>\<open>../utils/shell\<close> is not among the
  sources. Killing a process tree is best-effort cleanup; here it records the pid whose
  tree is killed and does not throw.
\<close>

definition killProcessTree :: "int \<Rightarrow> state \<Rightarrow> state" where
  "killProcessTree p s = s\<lparr>killed := killed s @ [p]\<rparr>"

text \<open>The environment given to the gateway process.\<close>

definition kernel_env :: "world \<Rightarrow> string \<Rightarrow> env \<Rightarrow> env" where
  "kernel_env w wd runtime_env =
    (let kernelEnv =
           AList.update ''OMP_SHELL_SNAPSHOT'' (shell_snapshot w)
             (AList.update ''PYTHONUNBUFFERED'' (Some ''1'') runtime_env);
         pythonPathParts =
           join_with (delimiter w)
             (filter (\<lambda>x. x \<noteq> [])
                (wd # (case env_get kernelEnv ''PYTHONPATH'' of None \<Rightarrow> [] | Some pp \<Rightarrow> [pp])))
     in if pythonPathParts \<noteq> [] then AList.update ''PYTHONPATH'' (Some pythonPathParts) kernelEnv
        else kernelEnv)"

definition gateway_url :: "nat \<Rightarrow> string" where
  "gateway_url gatewayPort = ''http://127.0.0.1:'' @ string_of_nat gatewayPort"

definition gateway_argv :: "string \<Rightarrow> nat \<Rightarrow> string list" where
  "gateway_argv pythonPath gatewayPort =
    [pythonPath, ''-m'', ''kernel_gateway'', ''--KernelGatewayApp.ip=127.0.0.1'',
     ''--KernelGatewayApp.port='' @ string_of_nat gatewayPort,
     ''--KernelGatewayApp.port_retries=0'', ''--KernelGatewayApp.allow_origin=*'',
     ''--JupyterApp.answer_yes=true'']"

text \<open>The call of \<^verbatim>\<open>Bun.spawn\<close> in \<^verbatim>\<open>startGatewayProcess\<close>, as logged.\<close>

definition gateway_spawn ::
  "world \<Rightarrow> string \<Rightarrow> string \<Rightarrow> env \<Rightarrow> nat \<Rightarrow> int \<Rightarrow> spawn_call" where
  "gateway_spawn w wd pythonPath runtime_env gatewayPort p =
    \<lparr>spawn_argv = gateway_argv pythonPath gatewayPort,
     spawn_cwd = wd,
     spawn_env = kernel_env w wd runtime_env,
     spawn_pid = p\<rparr>"

text \<open>
  The loop of \<^verbatim>\<open>startGatewayProcess\<close> that waits for the spawned process \<open>p\<close> to
  answer at \<open>u\<close>, with what follows it. Each turn that does not leave the loop takes the
  time of a probe and the 100 ms of \<^verbatim>\<open>Bun.sleep\<close>.
\<close>

function awaitGatewayHealthy ::
  "world \<Rightarrow> int \<Rightarrow> string \<Rightarrow> nat \<Rightarrow> state \<Rightarrow> (error + (string \<times> int)) \<times> state" where
  "awaitGatewayHealthy w p u startTime s =
    (if now s - startTime < GATEWAY_STARTUP_TIMEOUT_MS then
       if exited_flag w p (now s) then (Inl GatewayExited, s)
       else if fst (isGatewayHealthy w u s) then
         (Inr (u, p),
          (snd (isGatewayHealthy w u s))\<lparr>localGatewayProcess := Some p, localGatewayUrl := Some u\<rparr>)
       else
         awaitGatewayHealthy w p u startTime
           ((snd (isGatewayHealthy w u s))\<lparr>now := now (snd (isGatewayHealthy w u s)) + 100\<rparr>)
     else (Inl GatewayStartupTimeout, killProcessTree p s))"
  by pat_completeness auto
termination
  by (relation "measure (\<lambda>(w, p, u, startTime, s). startTime + GATEWAY_STARTUP_TIMEOUT_MS - now s)")
    (auto simp: isGatewayHealthy_def)

declare awaitGatewayHealthy.simps [simp del]

definition startGatewayProcess ::
  "world \<Rightarrow> string \<Rightarrow> state \<Rightarrow> (error + (string \<times> int)) \<times> state" where
  "startGatewayProcess w wd s =
    (case shell_config w of
       Inl e \<Rightarrow> (Inl e, s)
     | Inr (shell, e) \<Rightarrow>
         (case resolvePythonRuntime w wd (filterEnv e) of
            Inl err \<Rightarrow> (Inl err, s)
          | Inr (pythonPath, runtime_env) \<Rightarrow>
              (case allocate_port w of
                 Inl err \<Rightarrow> (Inl err, s)
               | Inr gatewayPort \<Rightarrow>
                   (case spawn w of
                      Inl err \<Rightarrow> (Inl err, s)
                    | Inr p \<Rightarrow>
                        awaitGatewayHealthy w p (gateway_url gatewayPort) (now s)
                          (s\<lparr>spawned := spawned s @
                              [gateway_spawn w wd pythonPath runtime_env gatewayPort p]\<rparr>)))))"

subsection \<open>The idle reclaimer\<close>

definition clearTimeout :: "nat \<Rightarrow> state \<Rightarrow> state" where
  "clearTimeout t s = s\<lparr>timers := filter (\<lambda>td. fst td \<noteq> t) (timers s)\<rparr>"

definition setTimeout :: "nat \<Rightarrow> state \<Rightarrow> nat \<times> state" where
  "setTimeout delay s =
    (next_timer s,
     s\<lparr>timers := timers s @ [(next_timer s, now s + delay)], next_timer := Suc (next_timer s)\<rparr>)"

definition shutdownLocalGateway :: "state \<Rightarrow> state" where
  "shutdownLocalGateway s =
    (case localGatewayProcess s of
       Some p \<Rightarrow> (killProcessTree p s)\<lparr>localGatewayProcess := None, localGatewayUrl := None\<rparr>
     | None \<Rightarrow> s)"

definition scheduleIdleShutdown :: "state \<Rightarrow> state" where
  "scheduleIdleShutdown s =
    (let s1 = (case idleShutdownTimer s of Some t \<Rightarrow> clearTimeout t s | None \<Rightarrow> s)
     in (snd (setTimeout GATEWAY_IDLE_TIMEOUT_MS s1))
          \<lparr>idleShutdownTimer := Some (fst (setTimeout GATEWAY_IDLE_TIMEOUT_MS s1))\<rparr>)"

definition cancelIdleShutdown :: "state \<Rightarrow> state" where
  "cancelIdleShutdown s =
    (case idleShutdownTimer s of
       Some t \<Rightarrow> (clearTimeout t s)\<lparr>idleShutdownTimer := None\<rparr>
     | None \<Rightarrow> s)"

text \<open>The callback that \<^verbatim>\<open>scheduleIdleShutdown\<close> hands to \<^verbatim>\<open>setTimeout\<close>.\<close>

definition idleShutdownCallback :: "world \<Rightarrow> state \<Rightarrow> state" where
  "idleShutdownCallback w s =
    (case readGatewayInfo s of
       Some i \<Rightarrow>
         if refCount i = 0 then (clearGatewayInfo w (shutdownLocalGateway s))\<lparr>idleShutdownTimer := None\<rparr>
         else s\<lparr>idleShutdownTimer := None\<rparr>
     | None \<Rightarrow> s\<lparr>idleShutdownTimer := None\<rparr>)"

text \<open>
  The runtime fires a pending timer once its time has come: the timer leaves the table and
  its callback runs. \<open>None\<close>: the timer \<open>t\<close> is not pending, or not yet due.
\<close>

definition fireTimer :: "world \<Rightarrow> nat \<Rightarrow> state \<Rightarrow> state option" where
  "fireTimer w t s =
    (case map_of (timers s) t of
       None \<Rightarrow> None
     | Some due \<Rightarrow>
         if due \<le> now s then Some (idleShutdownCallback w (clearTimeout t s)) else None)"

definition advanceClock :: "nat \<Rightarrow> state \<Rightarrow> state" where
  "advanceClock ms s = s\<lparr>now := now s + ms\<rparr>"

subsection \<open>The coordinator\<close>

definition is_test_env :: "world \<Rightarrow> bool" where
  "is_test_env w =
    (process_env w ''BUN_ENV'' = Some ''test'' \<or> process_env w ''NODE_ENV'' = Some ''test'')"

text \<open>The branch of \<^verbatim>\<open>acquireSharedGateway\<close> that reuses the recorded gateway.\<close>

definition reuseGateway :: "world \<Rightarrow> GatewayInfo \<Rightarrow> state \<Rightarrow> (error + AcquireResult) \<times> state" where
  "reuseGateway w existingInfo s =
    (case writeGatewayInfo w (existingInfo\<lparr>refCount := refCount existingInfo + 1\<rparr>) s of
       Inl e \<Rightarrow> (Inl e, s)
     | Inr s1 \<Rightarrow>
         (Inr \<lparr>acquired_url = url existingInfo, isShared = True\<rparr>,
          (cancelIdleShutdown s1)\<lparr>isCoordinatorInitialized := True\<rparr>))"

text \<open>The branch that starts a new gateway and records it.\<close>

definition startNewGateway :: "world \<Rightarrow> string \<Rightarrow> state \<Rightarrow> (error + AcquireResult) \<times> state" where
  "startNewGateway w wd s =
    (case startGatewayProcess w wd s of
       (Inl e, s1) \<Rightarrow> (Inl e, s1)
     | (Inr (u, p), s1) \<Rightarrow>
         (case writeGatewayInfo w
                 \<lparr>url = u, pid = p, startedAt = now s1, refCount = 1, cwd = wd\<rparr> s1 of
            Inl e \<Rightarrow> (Inl e, s1)
          | Inr s2 \<Rightarrow>
              (Inr \<lparr>acquired_url = u, isShared = True\<rparr>, s2\<lparr>isCoordinatorInitialized := True\<rparr>)))"

text \<open>The \<^verbatim>\<open>try\<close> block of \<^verbatim>\<open>acquireSharedGateway\<close>; \<open>Inl\<close> is what it throws.\<close>

definition acquire_try :: "world \<Rightarrow> string \<Rightarrow> state \<Rightarrow> (error + AcquireResult) \<times> state" where
  "acquire_try w wd s =
    (case ensureGatewayDir w s of
       Inl e \<Rightarrow> (Inl e, s)
     | Inr s1 \<Rightarrow>
         (case readGatewayInfo s1 of
            Some existingInfo \<Rightarrow>
              (case isGatewayAlive w existingInfo s1 of
                 (True, s2) \<Rightarrow> reuseGateway w existingInfo s2
               | (False, s2) \<Rightarrow> startNewGateway w wd (clearGatewayInfo w s2))
          | None \<Rightarrow> startNewGateway w wd s1))"

definition acquireSharedGateway ::
  "world \<Rightarrow> string \<Rightarrow> state \<Rightarrow> AcquireResult option completion \<times> state" where
  "acquireSharedGateway w wd s =
    (if is_test_env w then (Returned None, s)
     else
       (case acquire_try w wd s of
          (Inl e, s1) \<Rightarrow> (Returned None, s1)
        | (Inr r, s1) \<Rightarrow> (Returned (Some r), s1)))"

definition releaseSharedGateway :: "world \<Rightarrow> state \<Rightarrow> state" where
  "releaseSharedGateway w s =
    (if \<not> isCoordinatorInitialized s then s
     else
       (case readGatewayInfo s of
          None \<Rightarrow> s
        | Some info \<Rightarrow>
            (let newRefCount = max 0 (refCount info - 1)
             in if newRefCount = 0 then
                  (case writeGatewayInfo w (info\<lparr>refCount := 0\<rparr>) s of
                     Inl e \<Rightarrow> s
                   | Inr s1 \<Rightarrow> scheduleIdleShutdown s1)
                else
                  (case writeGatewayInfo w (info\<lparr>refCount := newRefCount\<rparr>) s of
                     Inl e \<Rightarrow> s
                   | Inr s1 \<Rightarrow> s1))))"

definition getSharedGatewayUrl :: "state \<Rightarrow> string option" where
  "getSharedGatewayUrl s = localGatewayUrl s"

definition isSharedGatewayActive :: "state \<Rightarrow> bool" where
  "isSharedGatewayActive s = (localGatewayProcess s \<noteq> None \<and> localGatewayUrl s \<noteq> None)"

definition shutdownSharedGateway :: "world \<Rightarrow> state \<Rightarrow> state" where
  "shutdownSharedGateway w s =
    (let s1 = cancelIdleShutdown s;
         s2 = (case readGatewayInfo s1 of Some info \<Rightarrow> clearGatewayInfo w s1 | None \<Rightarrow> s1)
     in (shutdownLocalGateway s2)\<lparr>isCoordinatorInitialized := False\<rparr>)"

subsection \<open>Sequences of calls and predicates on states\<close>



text \<open>
  The three ways the wait for the spawned process \<open>p\<close> at \<open>u\<close>, begun at \<open>startTime\<close>
  in state \<open>s\<close>, can end in \<open>r\<close>: healthy (a probe sent in time succeeded, the module
  now holds the process and its URL), exited (the flag was seen set before the time ran
  out, nothing else changed) or timed out (the time ran out and the process tree was
  killed).
\<close>

definition await_outcome ::
  "world \<Rightarrow> int \<Rightarrow> string \<Rightarrow> nat \<Rightarrow> state \<Rightarrow> (error + (string \<times> int)) \<times> state \<Rightarrow> bool" where
  "await_outcome w p u startTime s r =
    ((fst r = Inr (u, p) \<and>
      snd r = s\<lparr>localGatewayProcess := Some p, localGatewayUrl := Some u, now := now (snd r)\<rparr> \<and>
      (\<exists>t. now s \<le> t \<and> t - startTime < GATEWAY_STARTUP_TIMEOUT_MS \<and> probe_ok w u t \<and>
           now (snd r) = t + probe_ms w u t)) \<or>
     (fst r = Inl GatewayExited \<and>
      snd r = s\<lparr>now := now (snd r)\<rparr> \<and>
      now s \<le> now (snd r) \<and>
      now (snd r) - startTime < GATEWAY_STARTUP_TIMEOUT_MS \<and>
      exited_flag w p (now (snd r))) \<or>
     (fst r = Inl GatewayStartupTimeout \<and>
      snd r = s\<lparr>now := now (snd r), killed := killed s @ [p]\<rparr> \<and>
      now s \<le> now (snd r) \<and>
      GATEWAY_STARTUP_TIMEOUT_MS \<le> now (snd r) - startTime))"

text \<open>
  A launch that fails leaves the state as it was but for the clock, the log of spawned
  processes and, on a timeout, the log of killed ones.
\<close>

definition launch_failed_from :: "state \<Rightarrow> state \<Rightarrow> bool" where
  "launch_failed_from s s' =
    (\<exists>n extra k. now s \<le> n \<and>
       s' = s\<lparr>spawned := spawned s @ extra, now := n, killed := killed s @ k\<rparr>)"

text \<open>A launch that succeeds: the module holds the process \<open>p\<close> at the URL of \<open>port\<close>.\<close>

definition launched_from :: "world \<Rightarrow> string \<Rightarrow> nat \<Rightarrow> int \<Rightarrow> state \<Rightarrow> state \<Rightarrow> bool" where
  "launched_from w wd port p s s' =
    (\<exists>n py renv. now s \<le> n \<and>
       s' = s\<lparr>spawned := spawned s @ [gateway_spawn w wd py renv port p],
              localGatewayProcess := Some p, localGatewayUrl := Some (gateway_url port), now := n\<rparr>)"

text \<open>
  The pending timers are the one the module holds in \<open>idleShutdownTimer\<close>, if any.
\<close>

definition timers_owned :: "state \<Rightarrow> bool" where
  "timers_owned s =
    (map fst (timers s) = (case idleShutdownTimer s of None \<Rightarrow> [] | Some t \<Rightarrow> [t]))"

text \<open>
  The URL is set together with the process, and the process held is one this invocation
  spawned.
\<close>

definition local_is_spawned :: "state \<Rightarrow> bool" where
  "local_is_spawned s =
    (case localGatewayProcess s of
       None \<Rightarrow> localGatewayUrl s = None
     | Some p \<Rightarrow> localGatewayUrl s \<noteq> None \<and> p \<in> set (map spawn_pid (spawned s)))"

text \<open>The module's variables as loaded, in an invocation that has done nothing yet.\<close>

definition module_loaded :: "state \<Rightarrow> bool" where
  "module_loaded s =
    (localGatewayProcess s = None \<and> localGatewayUrl s = None \<and> idleShutdownTimer s = None \<and>
     \<not> isCoordinatorInitialized s \<and> timers s = [] \<and> spawned s = [] \<and> killed s = [])"

text \<open>
  What can happen in one invocation: a call of an exported function, a pending timer
  firing, time passing, or another invocation rewriting the gateway directory.
\<close>

datatype event =
    Acquire string
  | Release
  | Shutdown
  | TimerFires nat
  | ClockAdvances nat
  | OtherInvocationWrites gateway_fs

fun perform :: "world \<Rightarrow> event \<Rightarrow> state \<Rightarrow> state" where
  "perform w (Acquire wd) s = snd (acquireSharedGateway w wd s)"
| "perform w Release s = releaseSharedGateway w s"
| "perform w Shutdown s = shutdownSharedGateway w s"
| "perform w (TimerFires t) s = (case fireTimer w t s of Some s1 \<Rightarrow> s1 | None \<Rightarrow> s)"
| "perform w (ClockAdvances ms) s = advanceClock ms s"
| "perform w (OtherInvocationWrites fs) s = s\<lparr>gateway_fs := fs\<rparr>"

text \<open>A history: events in order, each in the world it meets.\<close>

fun run :: "(world \<times> event) list \<Rightarrow> state \<Rightarrow> state" where
  "run [] s = s"
| "run ((w, ev) # rest) s = run rest (perform w ev s)"

subsection \<open>A concrete host\<close>

text \<open>
  A POSIX host outside test mode on which every operation succeeds: \<^verbatim>\<open>python\<close> is on
  the search path, port 8888 is free, the spawned process gets pid 4242 and answers the
  health probe from the start.
\<close>

definition example_world :: world where
  "example_world =
    \<lparr>process_env = (\<lambda>k. None),
     win32 = False,
     mkdir_fails = None,
     write_fails = None,
     unlink_fails = False,
     pid_running = (\<lambda>p. p = 4242),
     probe_ok = (\<lambda>u t. u = ''http://127.0.0.1:8888''),
     probe_ms = (\<lambda>u t. 5),
     exited_flag = (\<lambda>p t. False),
     shell_config =
       Inr (''/bin/sh'',
            [(''PATH'', Some ''/usr/bin''), (''OPENAI_API_KEY'', Some ''sk-1''),
             (''HOME'', Some ''/home/u'')]),
     shell_snapshot = Some ''/tmp/snapshot.sh'',
     file_exists = (\<lambda>f. False),
     which = (\<lambda>n. if n = ''python'' then Some ''/usr/bin/python'' else None),
     allocate_port = Inr 8888,
     spawn = Inr 4242\<rparr>"

text \<open>The same host, where the spawned process never answers and each probe times out.\<close>

definition silent_world :: world where
  "silent_world = example_world\<lparr>probe_ok := (\<lambda>u t. False), probe_ms := (\<lambda>u t. 3000)\<rparr>"

text \<open>The same host, where the spawned process is seen exited from 250 ms on.\<close>

definition crashing_world :: world where
  "crashing_world =
    example_world\<lparr>probe_ok := (\<lambda>u t. False), exited_flag := (\<lambda>p t. 250 \<le> t)\<rparr>"

text \<open>
  The same host later: the recorded process 4242 is gone, port 9999 is the free one, and
  the process spawned next gets pid 5150 and answers at once.
\<close>

definition stale_world :: world where
  "stale_world =
    example_world\<lparr>pid_running := (\<lambda>p. False),
      probe_ok := (\<lambda>u t. u = ''http://127.0.0.1:9999''),
      allocate_port := Inr 9999, spawn := Inr 5150\<rparr>"

text \<open>
  The same host with a virtual environment in \<^verbatim>\<open>/proj/.venv\<close> that has a python
  binary; \<^verbatim>\<open>/v\<close> has none.
\<close>

definition venv_world :: world where
  "venv_world =
    example_world\<lparr>file_exists := (\<lambda>f. f = ''/proj/.venv'' \<or> f = ''/proj/.venv/bin/python'')\<rparr>"

text \<open>The same host under the test-mode flag.\<close>

definition test_world :: world where
  "test_world =
    example_world\<lparr>process_env := (\<lambda>k. if k = ''NODE_ENV'' then Some ''test'' else None)\<rparr>"

text \<open>The module as loaded, before any call, with no gateway directory.\<close>

definition initial_state :: state where
  "initial_state =
    \<lparr>localGatewayProcess = None,
     localGatewayUrl = None,
     idleShutdownTimer = None,
     isCoordinatorInitialized = False,
     now = 0,
     gateway_fs = NoDir,
     timers = [],
     next_timer = 0,
     spawned = [],
     killed = []\<rparr>"

definition example_info :: GatewayInfo where
  "example_info =
    \<lparr>url = ''http://127.0.0.1:8888'', pid = 4242, startedAt = 0, refCount = 2, cwd = ''/proj''\<rparr>"

text \<open>
  An invocation that has launched the gateway on the concrete host and holds the only
  reference to it.
\<close>

definition holding_state :: state where
  "holding_state =
    \<lparr>localGatewayProcess = Some 4242,
     localGatewayUrl = Some ''http://127.0.0.1:8888'',
     idleShutdownTimer = None,
     isCoordinatorInitialized = True,
     now = 5,
     gateway_fs =
       File (Parsed \<lparr>url = ''http://127.0.0.1:8888'', pid = 4242, startedAt = 5, refCount = 1,
                     cwd = ''/proj''\<rparr>),
     timers = [],
     next_timer = 0,
     spawned =
       [gateway_spawn example_world ''/proj'' ''/usr/bin/python''
          [(''PATH'', Some ''/usr/bin''), (''HOME'', Some ''/home/u'')] 8888 4242],
     killed = []\<rparr>"

text \<open>An invocation that finds the record of a gateway started by another one.\<close>

definition joining_state :: state where
  "joining_state = initial_state\<lparr>gateway_fs := File (Parsed example_info)\<rparr>"

section \<open>Properties\<close>

subsection \<open>Environment sanitisation\<close>

lemma filterEnv_entry_keys:
  "k \<notin> fst ` set filtered \<Longrightarrow> k \<in> set deny \<Longrightarrow>
   k \<notin> fst ` set (filterEnv_entry deny allow prefixes filtered kv)"
  by (cases kv) (auto simp: filterEnv_entry_def dom_update split: option.splits)

lemma foldl_filterEnv_entry_keys:
  "k \<notin> fst ` set acc \<Longrightarrow> k \<in> set deny \<Longrightarrow>
   k \<notin> fst ` set (foldl (filterEnv_entry deny allow prefixes) acc e)"
proof (induction e arbitrary: acc)
  case Nil
  then show ?case by simp
next
  case (Cons kv e)
  have "k \<notin> fst ` set (filterEnv_entry deny allow prefixes acc kv)"
    using Cons.prems by (rule filterEnv_entry_keys)
  then show ?case
    using Cons.IH Cons.prems(2) by simp
qed

lemma filterEnvWith_deny:
  "k \<in> set deny \<Longrightarrow> k \<notin> fst ` set (filterEnvWith deny allow prefixes e)"
  unfolding filterEnvWith_def by (rule foldl_filterEnv_entry_keys) simp_all

subsection \<open>The state store\<close>

lemma readGatewayInfo_Some_iff:
  "readGatewayInfo s = Some i \<longleftrightarrow> gateway_fs s = File (Parsed i)"
  by (auto simp: readGatewayInfo_def split: gateway_fs.splits gateway_file.splits)

lemma readGatewayInfo_File [simp]:
  "gateway_fs s = File (Parsed i) \<Longrightarrow> readGatewayInfo s = Some i"
  by (simp add: readGatewayInfo_def)

lemma gateway_fs_scheduleIdleShutdown [simp]:
  "gateway_fs (scheduleIdleShutdown s) = gateway_fs s"
  by (simp add: scheduleIdleShutdown_def setTimeout_def clearTimeout_def split: option.splits)

subsection \<open>Release\<close>








subsection \<open>Launching\<close>

lemma await_outcome_step:
  assumes "await_outcome w p u startTime (s\<lparr>now := t'\<rparr>) r" and "now s \<le> t'"
  shows "await_outcome w p u startTime s r"
  using assms unfolding await_outcome_def
  by (elim disjE conjE exE) (simp_all, metis le_trans)

lemma awaitGatewayHealthy_outcome:
  "await_outcome w p u startTime s (awaitGatewayHealthy w p u startTime s)"
proof (induction w p u startTime s rule: awaitGatewayHealthy.induct)
  case (1 w p u startTime s)
  show ?case
  proof (cases "now s - startTime < GATEWAY_STARTUP_TIMEOUT_MS")
    case False
    then show ?thesis
      by (simp add: awaitGatewayHealthy.simps [of w p u startTime s] await_outcome_def
          killProcessTree_def)
  next
    case inTime: True
    show ?thesis
    proof (cases "exited_flag w p (now s)")
      case True
      with inTime show ?thesis
        by (simp add: awaitGatewayHealthy.simps [of w p u startTime s] await_outcome_def)
    next
      case notExited: False
      show ?thesis
      proof (cases "probe_ok w u (now s)")
        case True
        with inTime notExited show ?thesis
          by (auto simp add: awaitGatewayHealthy.simps [of w p u startTime s] await_outcome_def
              isGatewayHealthy_def)
      next
        case False
        with inTime notExited have
          "await_outcome w p u startTime
             ((snd (isGatewayHealthy w u s))\<lparr>now := now (snd (isGatewayHealthy w u s)) + 100\<rparr>)
             (awaitGatewayHealthy w p u startTime
               ((snd (isGatewayHealthy w u s))\<lparr>now := now (snd (isGatewayHealthy w u s)) + 100\<rparr>))"
          by (intro "1.IH") (simp_all add: isGatewayHealthy_def)
        moreover have "awaitGatewayHealthy w p u startTime s =
            awaitGatewayHealthy w p u startTime
               ((snd (isGatewayHealthy w u s))\<lparr>now := now (snd (isGatewayHealthy w u s)) + 100\<rparr>)"
          using inTime notExited False
          by (simp add: awaitGatewayHealthy.simps [of w p u startTime s] isGatewayHealthy_def)
        ultimately show ?thesis
          using await_outcome_step [where s = s and t' = "now s + probe_ms w u (now s) + 100"]
          by (simp add: isGatewayHealthy_def)
      qed
    qed
  qed
qed

lemma startGatewayProcess_spawned:
  assumes "shell_config w = Inr (sh, e)"
    and "resolvePythonRuntime w wd (filterEnv e) = Inr (py, renv)"
    and "allocate_port w = Inr port"
    and "spawn w = Inr p"
  shows "startGatewayProcess w wd s =
           awaitGatewayHealthy w p (gateway_url port) (now s)
             (s\<lparr>spawned := spawned s @ [gateway_spawn w wd py renv port p]\<rparr>)"
  using assms by (simp add: startGatewayProcess_def)



subsection \<open>Evaluation on the concrete host\<close>

lemmas host_defs = example_world_def silent_world_def crashing_world_def test_world_def
  stale_world_def venv_world_def
  initial_state_def joining_state_def example_info_def holding_state_def

lemmas env_defs = filterEnv_def filterEnvWith_def filterEnv_entry_def DEFAULT_ENV_DENYLIST_def
  DEFAULT_ENV_ALLOWLIST_def DEFAULT_ENV_ALLOW_PREFIXES_def env_get_def truthy_def startsWith_def

lemmas launch_defs = startGatewayProcess_def resolvePythonRuntime_def resolveVenvPath_def
  python_on_path_def venv_bin_dir_def venv_python_def path_join_def path_sep_def delimiter_def
  gateway_url_def string_of_nat.simps awaitGatewayHealthy.simps GATEWAY_STARTUP_TIMEOUT_MS_def
  isGatewayHealthy_def killProcessTree_def


subsection \<open>What a launch changes\<close>

lemma startGatewayProcess_cases:
  "(\<exists>e. startGatewayProcess w wd s = (Inl e, s)) \<or>
   (\<exists>sh e py renv port p.
      shell_config w = Inr (sh, e) \<and>
      resolvePythonRuntime w wd (filterEnv e) = Inr (py, renv) \<and>
      allocate_port w = Inr port \<and> spawn w = Inr p \<and>
      await_outcome w p (gateway_url port) (now s)
        (s\<lparr>spawned := spawned s @ [gateway_spawn w wd py renv port p]\<rparr>)
        (startGatewayProcess w wd s))"
proof (cases "shell_config w")
  case (Inl e)
  then show ?thesis by (simp add: startGatewayProcess_def)
next
  case (Inr she)
  obtain sh e where she: "she = (sh, e)" by (cases she)
  show ?thesis
  proof (cases "resolvePythonRuntime w wd (filterEnv e)")
    case (Inl err)
    with Inr she show ?thesis by (simp add: startGatewayProcess_def)
  next
    case rt: (Inr pr)
    obtain py renv where pr: "pr = (py, renv)" by (cases pr)
    show ?thesis
    proof (cases "allocate_port w")
      case (Inl err)
      with Inr she rt pr show ?thesis by (simp add: startGatewayProcess_def)
    next
      case port: (Inr port)
      show ?thesis
      proof (cases "spawn w")
        case (Inl err)
        with Inr she rt pr port show ?thesis by (simp add: startGatewayProcess_def)
      next
        case sp: (Inr p)
        let ?s0 = "s\<lparr>spawned := spawned s @ [gateway_spawn w wd py renv port p]\<rparr>"
        have "startGatewayProcess w wd s =
           awaitGatewayHealthy w p (gateway_url port) (now s) ?s0"
          using Inr she rt pr port sp by (simp add: startGatewayProcess_def)
        then have "await_outcome w p (gateway_url port) (now s) ?s0 (startGatewayProcess w wd s)"
          using awaitGatewayHealthy_outcome [of w p "gateway_url port" "now ?s0" ?s0]
          by simp
        with Inr she rt pr port sp show ?thesis by blast
      qed
    qed
  qed
qed

lemma await_outcome_shape:
  assumes "await_outcome w p u startTime s r"
  shows "\<exists>n. now s \<le> n \<and>
           ((fst r = Inr (u, p) \<and>
             snd r = s\<lparr>localGatewayProcess := Some p, localGatewayUrl := Some u, now := n\<rparr>) \<or>
            (fst r = Inl GatewayExited \<and> snd r = s\<lparr>now := n\<rparr>) \<or>
            (fst r = Inl GatewayStartupTimeout \<and> snd r = s\<lparr>now := n, killed := killed s @ [p]\<rparr>))"
  using assms unfolding await_outcome_def
  by (intro exI [of _ "now (snd r)"]) auto

lemma startGatewayProcess_shape:
  "(\<exists>e. fst (startGatewayProcess w wd s) = Inl e \<and>
        launch_failed_from s (snd (startGatewayProcess w wd s))) \<or>
   (\<exists>port p. allocate_port w = Inr port \<and> spawn w = Inr p \<and>
        fst (startGatewayProcess w wd s) = Inr (gateway_url port, p) \<and>
        launched_from w wd port p s (snd (startGatewayProcess w wd s)))"
proof -
  from startGatewayProcess_cases [of w wd s] show ?thesis
  proof
    assume "\<exists>e. startGatewayProcess w wd s = (Inl e, s)"
    then obtain e where "startGatewayProcess w wd s = (Inl e, s)" ..
    moreover have "launch_failed_from s s"
      unfolding launch_failed_from_def
      by (intro exI [of _ "now s"] exI [of _ "[]"]) simp
    ultimately show ?thesis by simp
  next
    assume "\<exists>sh e py renv port p.
      shell_config w = Inr (sh, e) \<and>
      resolvePythonRuntime w wd (filterEnv e) = Inr (py, renv) \<and>
      allocate_port w = Inr port \<and> spawn w = Inr p \<and>
      await_outcome w p (gateway_url port) (now s)
        (s\<lparr>spawned := spawned s @ [gateway_spawn w wd py renv port p]\<rparr>)
        (startGatewayProcess w wd s)"
    then obtain py renv port p where
      pp: "allocate_port w = Inr port" "spawn w = Inr p" and
      out: "await_outcome w p (gateway_url port) (now s)
        (s\<lparr>spawned := spawned s @ [gateway_spawn w wd py renv port p]\<rparr>)
        (startGatewayProcess w wd s)"
      by blast
    let ?R = "startGatewayProcess w wd s"
    let ?c = "gateway_spawn w wd py renv port p"
    from await_outcome_shape [OF out] obtain n where n: "now s \<le> n" and
      sh: "(fst ?R = Inr (gateway_url port, p) \<and>
             snd ?R = s\<lparr>spawned := spawned s @ [?c],
                 localGatewayProcess := Some p, localGatewayUrl := Some (gateway_url port), now := n\<rparr>) \<or>
            (fst ?R = Inl GatewayExited \<and> snd ?R = s\<lparr>spawned := spawned s @ [?c], now := n\<rparr>) \<or>
            (fst ?R = Inl GatewayStartupTimeout \<and>
             snd ?R = s\<lparr>spawned := spawned s @ [?c], now := n, killed := killed s @ [p]\<rparr>)"
      by auto
    from sh show ?thesis
    proof (elim disjE conjE)
      assume "fst ?R = Inr (gateway_url port, p)"
        and "snd ?R = s\<lparr>spawned := spawned s @ [?c],
                 localGatewayProcess := Some p, localGatewayUrl := Some (gateway_url port), now := n\<rparr>"
      moreover from this n have "launched_from w wd port p s (snd ?R)"
        unfolding launched_from_def by blast
      ultimately show ?thesis using pp by blast
    next
      assume "fst ?R = Inl GatewayExited" and eq: "snd ?R = s\<lparr>spawned := spawned s @ [?c], now := n\<rparr>"
      moreover have "launch_failed_from s (snd ?R)"
        unfolding launch_failed_from_def eq
        using n by (intro exI [of _ n] exI [of _ "[?c]"] exI [of _ "[]"]) simp
      ultimately show ?thesis by blast
    next
      assume "fst ?R = Inl GatewayStartupTimeout"
        and eq: "snd ?R = s\<lparr>spawned := spawned s @ [?c], now := n, killed := killed s @ [p]\<rparr>"
      moreover have "launch_failed_from s (snd ?R)"
        unfolding launch_failed_from_def eq
        using n by (intro exI [of _ n] exI [of _ "[?c]"] exI [of _ "[p]"]) simp
      ultimately show ?thesis by blast
    qed
  qed
qed

lemma launch_failed_from_fields:
  assumes "launch_failed_from s s'"
  shows "gateway_fs s' = gateway_fs s" "timers s' = timers s"
    "idleShutdownTimer s' = idleShutdownTimer s" "next_timer s' = next_timer s"
    "isCoordinatorInitialized s' = isCoordinatorInitialized s"
    "localGatewayProcess s' = localGatewayProcess s" "localGatewayUrl s' = localGatewayUrl s"
    "now s \<le> now s'" "set (spawned s) \<subseteq> set (spawned s')"
  using assms by (auto simp: launch_failed_from_def)

lemma launched_from_fields:
  assumes "launched_from w wd port p s s'"
  shows "gateway_fs s' = gateway_fs s" "timers s' = timers s"
    "idleShutdownTimer s' = idleShutdownTimer s" "next_timer s' = next_timer s"
    "isCoordinatorInitialized s' = isCoordinatorInitialized s"
    "localGatewayProcess s' = Some p" "localGatewayUrl s' = Some (gateway_url port)"
    "now s \<le> now s'" "killed s' = killed s"
    "\<exists>c. spawned s' = spawned s @ [c] \<and> spawn_pid c = p \<and> spawn_cwd c = wd"
  using assms by (auto simp: launched_from_def gateway_spawn_def)

lemma startNewGateway_shape:
  "(\<exists>e. fst (startNewGateway w wd s) = Inl e \<and>
        (launch_failed_from s (snd (startNewGateway w wd s)) \<or>
         (\<exists>port p. launched_from w wd port p s (snd (startNewGateway w wd s))))) \<or>
   (\<exists>port p s1.
        allocate_port w = Inr port \<and> spawn w = Inr p \<and> launched_from w wd port p s s1 \<and>
        fst (startNewGateway w wd s) = Inr \<lparr>acquired_url = gateway_url port, isShared = True\<rparr> \<and>
        snd (startNewGateway w wd s) =
          s1\<lparr>gateway_fs :=
               File (Parsed \<lparr>url = gateway_url port, pid = p, startedAt = now s1,
                             refCount = 1, cwd = wd\<rparr>),
             isCoordinatorInitialized := True\<rparr>)"
proof -
  let ?G = "startGatewayProcess w wd s"
  from startGatewayProcess_shape [of w wd s] show ?thesis
  proof (elim disjE exE conjE)
    fix e
    assume "fst ?G = Inl e" and "launch_failed_from s (snd ?G)"
    then show ?thesis
      by (cases ?G) (auto simp: startNewGateway_def)
  next
    fix port p
    assume pp: "allocate_port w = Inr port" "spawn w = Inr p"
      and r: "fst ?G = Inr (gateway_url port, p)"
      and l: "launched_from w wd port p s (snd ?G)"
    obtain s1 where G: "?G = (Inr (gateway_url port, p), s1)"
      using r by (cases ?G) auto
    with l have l1: "launched_from w wd port p s s1" by simp
    show ?thesis
    proof (cases "writeGatewayInfo w
        \<lparr>url = gateway_url port, pid = p, startedAt = now s1, refCount = 1, cwd = wd\<rparr> s1")
      case (Inl e)
      with G l1 show ?thesis
        by (auto simp: startNewGateway_def)
    next
      case (Inr s2)
      then have "s2 = s1\<lparr>gateway_fs :=
               File (Parsed \<lparr>url = gateway_url port, pid = p, startedAt = now s1,
                             refCount = 1, cwd = wd\<rparr>)\<rparr>"
        by (auto simp: writeGatewayInfo_def split: if_splits option.splits)
      with Inr G l1 pp show ?thesis
        by (auto simp: startNewGateway_def)
    qed
  qed
qed

subsection \<open>Invariants of an invocation\<close>

lemma timers_owned_upd [simp]:
  "timers_owned (s\<lparr>now := n\<rparr>) = timers_owned s"
  "timers_owned (s\<lparr>gateway_fs := g\<rparr>) = timers_owned s"
  "timers_owned (s\<lparr>isCoordinatorInitialized := b\<rparr>) = timers_owned s"
  "timers_owned (s\<lparr>localGatewayProcess := lp\<rparr>) = timers_owned s"
  "timers_owned (s\<lparr>localGatewayUrl := lu\<rparr>) = timers_owned s"
  "timers_owned (s\<lparr>spawned := sp\<rparr>) = timers_owned s"
  "timers_owned (s\<lparr>killed := k\<rparr>) = timers_owned s"
  by (simp_all add: timers_owned_def)

lemma local_is_spawned_upd [simp]:
  "local_is_spawned (s\<lparr>now := n\<rparr>) = local_is_spawned s"
  "local_is_spawned (s\<lparr>gateway_fs := g\<rparr>) = local_is_spawned s"
  "local_is_spawned (s\<lparr>isCoordinatorInitialized := b\<rparr>) = local_is_spawned s"
  "local_is_spawned (s\<lparr>timers := ts\<rparr>) = local_is_spawned s"
  "local_is_spawned (s\<lparr>next_timer := nt\<rparr>) = local_is_spawned s"
  "local_is_spawned (s\<lparr>idleShutdownTimer := it\<rparr>) = local_is_spawned s"
  "local_is_spawned (s\<lparr>killed := k\<rparr>) = local_is_spawned s"
  by (simp_all add: local_is_spawned_def split: option.splits)

lemma timers_owned_cancel [simp]: "timers_owned s \<Longrightarrow> timers_owned (cancelIdleShutdown s)"
  by (auto simp: timers_owned_def cancelIdleShutdown_def clearTimeout_def split: option.splits)


lemma timers_owned_schedule [simp]: "timers_owned s \<Longrightarrow> timers_owned (scheduleIdleShutdown s)"
  by (auto simp: timers_owned_def scheduleIdleShutdown_def setTimeout_def clearTimeout_def
      split: option.splits)


lemma local_is_spawned_cancel [simp]: "local_is_spawned (cancelIdleShutdown s) = local_is_spawned s"
  by (auto simp: cancelIdleShutdown_def clearTimeout_def split: option.splits)

lemma local_is_spawned_schedule [simp]: "local_is_spawned (scheduleIdleShutdown s) = local_is_spawned s"
  by (auto simp: scheduleIdleShutdown_def setTimeout_def clearTimeout_def split: option.splits)

lemma timers_owned_clear [simp]: "timers_owned (clearGatewayInfo w s) = timers_owned s"
  by (auto simp: clearGatewayInfo_def split: gateway_fs.splits)

lemma local_is_spawned_clear [simp]: "local_is_spawned (clearGatewayInfo w s) = local_is_spawned s"
  by (auto simp: clearGatewayInfo_def split: gateway_fs.splits)

lemma timers_owned_shutdownLocal [simp]: "timers_owned (shutdownLocalGateway s) = timers_owned s"
  by (auto simp: shutdownLocalGateway_def killProcessTree_def split: option.splits)

lemma local_is_spawned_shutdownLocal [simp]:
  "local_is_spawned s \<Longrightarrow> local_is_spawned (shutdownLocalGateway s)"
  by (auto simp: shutdownLocalGateway_def killProcessTree_def local_is_spawned_def split: option.splits)

lemma startNewGateway_timers:
  "timers (snd (startNewGateway w wd s)) = timers s \<and>
   idleShutdownTimer (snd (startNewGateway w wd s)) = idleShutdownTimer s \<and>
   next_timer (snd (startNewGateway w wd s)) = next_timer s"
  using startNewGateway_shape [of w wd s]
  by (elim disjE exE conjE)
    (simp_all add: launch_failed_from_fields launched_from_fields)

lemma startNewGateway_timers_owned:
  "timers_owned (snd (startNewGateway w wd s)) = timers_owned s"
  by (simp add: timers_owned_def startNewGateway_timers)

lemma startNewGateway_local_is_spawned:
  assumes "local_is_spawned s"
  shows "local_is_spawned (snd (startNewGateway w wd s))"
proof -
  have f: "local_is_spawned s'" if "launch_failed_from s s'" for s'
    using that assms launch_failed_from_fields [OF that]
    by (auto simp: local_is_spawned_def split: option.splits)
  have l: "local_is_spawned s'" if "launched_from w wd port p s s'" for s' port p
    using launched_from_fields [OF that]
    by (auto simp: local_is_spawned_def split: option.splits)
  from startNewGateway_shape [of w wd s] show ?thesis
    using f l by auto
qed

lemma acquire_try_cases [case_names mkdir reuse stale fresh]:
  obtains e where "gateway_fs s = NoDir" "mkdir_fails w = Some e" "acquire_try w wd s = (Inl e, s)"
  | info where "readGatewayInfo s = Some info" "pid_running w (pid info)"
      "probe_ok w (url info) (now s)"
      "acquire_try w wd s =
         reuseGateway w info (s\<lparr>now := now s + probe_ms w (url info) (now s)\<rparr>)"
  | info n where "readGatewayInfo s = Some info"
      "\<not> (pid_running w (pid info) \<and> probe_ok w (url info) (now s))"
      "now s \<le> n"
      "acquire_try w wd s = startNewGateway w wd (clearGatewayInfo w (s\<lparr>now := n\<rparr>))"
  | "readGatewayInfo s = None"
      "gateway_fs s = NoDir \<longrightarrow> mkdir_fails w = None"
      "acquire_try w wd s =
         startNewGateway w wd (if gateway_fs s = NoDir then s\<lparr>gateway_fs := NoFile\<rparr> else s)"
proof (cases "readGatewayInfo s")
  case None
  show ?thesis
  proof (cases "gateway_fs s = NoDir")
    case True
    show ?thesis
    proof (cases "mkdir_fails w")
      case noerr: None
      have "acquire_try w wd s = startNewGateway w wd (s\<lparr>gateway_fs := NoFile\<rparr>)"
        using True noerr by (simp add: acquire_try_def ensureGatewayDir_def readGatewayInfo_def)
      with None True noerr show ?thesis by (intro that(4)) simp_all
    next
      case (Some e)
      with True have "acquire_try w wd s = (Inl e, s)"
        by (simp add: acquire_try_def ensureGatewayDir_def)
      with True Some show ?thesis by (intro that(1))
    qed
  next
    case False
    with None have "acquire_try w wd s = startNewGateway w wd s"
      by (simp add: acquire_try_def ensureGatewayDir_def)
    with None False show ?thesis by (intro that(4)) simp_all
  qed
next
  case (Some info)
  then have fs: "gateway_fs s = File (Parsed info)"
    by (simp add: readGatewayInfo_Some_iff)
  show ?thesis
  proof (cases "pid_running w (pid info)")
    case False
    then have "acquire_try w wd s = startNewGateway w wd (clearGatewayInfo w (s\<lparr>now := now s\<rparr>))"
      using fs Some
      by (simp add: acquire_try_def ensureGatewayDir_def isGatewayAlive_def isPidRunning_def)
    with Some False show ?thesis by (intro that(3) [of info "now s"]) simp_all
  next
    case running: True
    show ?thesis
    proof (cases "probe_ok w (url info) (now s)")
      case True
      then have "acquire_try w wd s =
         reuseGateway w info (s\<lparr>now := now s + probe_ms w (url info) (now s)\<rparr>)"
        using fs Some running
        by (simp add: acquire_try_def ensureGatewayDir_def isGatewayAlive_def isPidRunning_def
            isGatewayHealthy_def)
      with Some running True show ?thesis by (intro that(2))
    next
      case False
      then have "acquire_try w wd s =
         startNewGateway w wd (clearGatewayInfo w (s\<lparr>now := now s + probe_ms w (url info) (now s)\<rparr>))"
        using fs Some running
        by (simp add: acquire_try_def ensureGatewayDir_def isGatewayAlive_def isPidRunning_def
            isGatewayHealthy_def)
      with Some False show ?thesis
        by (intro that(3) [of info "now s + probe_ms w (url info) (now s)"]) simp_all
    qed
  qed
qed

lemma reuseGateway_shape:
  "(\<exists>e. reuseGateway w info s = (Inl e, s)) \<or>
   (gateway_fs s \<noteq> NoDir \<and> write_fails w = None \<and>
    reuseGateway w info s =
      (Inr \<lparr>acquired_url = url info, isShared = True\<rparr>,
       (cancelIdleShutdown (s\<lparr>gateway_fs := File (Parsed (info\<lparr>refCount := refCount info + 1\<rparr>))\<rparr>))
         \<lparr>isCoordinatorInitialized := True\<rparr>))"
  by (auto simp: reuseGateway_def writeGatewayInfo_def split: option.splits)

lemma acquire_try_timers_owned:
  assumes "timers_owned s"
  shows "timers_owned (snd (acquire_try w wd s))"
proof (cases rule: acquire_try_cases [of s w wd])
  case (mkdir e)
  with assms show ?thesis by simp
next
  case (reuse info)
  with assms reuseGateway_shape [of w info "s\<lparr>now := now s + probe_ms w (url info) (now s)\<rparr>"]
  show ?thesis by auto
next
  case (stale info n)
  with assms show ?thesis by (simp add: startNewGateway_timers_owned)
next
  case fresh
  with assms show ?thesis by (simp add: startNewGateway_timers_owned)
qed

lemma acquire_try_local_is_spawned:
  assumes "local_is_spawned s"
  shows "local_is_spawned (snd (acquire_try w wd s))"
proof (cases rule: acquire_try_cases [of s w wd])
  case (mkdir e)
  with assms show ?thesis by simp
next
  case (reuse info)
  with assms reuseGateway_shape [of w info "s\<lparr>now := now s + probe_ms w (url info) (now s)\<rparr>"]
  show ?thesis by auto
next
  case (stale info n)
  with assms show ?thesis by (simp add: startNewGateway_local_is_spawned)
next
  case fresh
  with assms show ?thesis by (simp add: startNewGateway_local_is_spawned)
qed

lemma acquire_snd:
  "snd (acquireSharedGateway w wd s) = (if is_test_env w then s else snd (acquire_try w wd s))"
  by (simp add: acquireSharedGateway_def split: prod.splits sum.splits)

lemma acquire_invariants:
  "timers_owned s \<Longrightarrow> timers_owned (snd (acquireSharedGateway w wd s))"
  "local_is_spawned s \<Longrightarrow> local_is_spawned (snd (acquireSharedGateway w wd s))"
  by (simp_all add: acquire_snd acquire_try_timers_owned acquire_try_local_is_spawned)

lemma release_invariants:
  "timers_owned s \<Longrightarrow> timers_owned (releaseSharedGateway w s)"
  "local_is_spawned s \<Longrightarrow> local_is_spawned (releaseSharedGateway w s)"
  by (auto simp: releaseSharedGateway_def Let_def writeGatewayInfo_def
      split: option.splits if_splits)

lemma shutdown_invariants:
  "timers_owned s \<Longrightarrow> timers_owned (shutdownSharedGateway w s)"
  "local_is_spawned s \<Longrightarrow> local_is_spawned (shutdownSharedGateway w s)"
  by (auto simp: shutdownSharedGateway_def Let_def split: option.splits)

lemma fireTimer_invariants:
  assumes "fireTimer w t s = Some s'"
  shows "timers_owned s \<Longrightarrow> timers_owned s'" "local_is_spawned s \<Longrightarrow> local_is_spawned s'"
proof -
  from assms obtain due where due: "map_of (timers s) t = Some due" "due \<le> now s"
    and s': "s' = idleShutdownCallback w (clearTimeout t s)"
    by (auto simp: fireTimer_def split: option.splits if_splits)
  have cb: "timers (idleShutdownCallback w x) = timers x \<and>
            idleShutdownTimer (idleShutdownCallback w x) = None" for x
    by (auto simp: idleShutdownCallback_def clearGatewayInfo_def shutdownLocalGateway_def
        killProcessTree_def split: option.splits gateway_fs.splits)
  show "timers_owned s'" if "timers_owned s"
  proof -
    from due(1) have "t \<in> fst ` set (timers s)"
      by (force dest: map_of_SomeD)
    with that have "timers (clearTimeout t s) = []"
      by (auto simp: timers_owned_def clearTimeout_def split: option.splits)
    then show ?thesis by (simp add: s' timers_owned_def cb)
  qed
  show "local_is_spawned s'" if "local_is_spawned s"
  proof -
    have "local_is_spawned (clearTimeout t s)"
      using that by (simp add: clearTimeout_def)
    then show ?thesis
      by (auto simp: s' idleShutdownCallback_def split: option.splits)
  qed
qed

lemma perform_invariants:
  "timers_owned s \<Longrightarrow> timers_owned (perform w ev s)"
  "local_is_spawned s \<Longrightarrow> local_is_spawned (perform w ev s)"
  by (cases ev; auto simp: acquire_invariants release_invariants shutdown_invariants
      advanceClock_def dest: fireTimer_invariants split: option.splits)+

lemma run_invariants:
  "timers_owned s \<Longrightarrow> local_is_spawned s \<Longrightarrow>
   timers_owned (run evs s) \<and> local_is_spawned (run evs s)"
  by (induction evs arbitrary: s) (auto simp: perform_invariants)

subsection \<open>Where the local gateway is set\<close>

lemma module_loaded_invariants:
  "module_loaded s \<Longrightarrow> timers_owned s \<and> local_is_spawned s"
  by (simp add: module_loaded_def timers_owned_def local_is_spawned_def)

lemma local_is_spawned_url:
  "local_is_spawned s \<Longrightarrow> localGatewayUrl s \<noteq> None \<or> localGatewayProcess s \<noteq> None \<Longrightarrow>
   spawned s \<noteq> []"
  by (auto simp: local_is_spawned_def split: option.splits)

text \<open>
  C10. Through any history of an invocation that starts with the module as loaded, the
  URL of \<open>getUrl\<close> is set or \<open>isActive\<close> is true only if the invocation itself has
  spawned a gateway process. So an \<open>acquire\<close> that reuses a live recorded gateway,
  returning its URL with \<open>isShared\<close> true, leaves \<open>getUrl\<close> at null where it was null,
  and \<open>isActive\<close> false.
\<close>

theorem local_gateway_only_where_launched:
  "(module_loaded s0 \<and>
    (getSharedGatewayUrl (run evs s0) \<noteq> None \<or> isSharedGatewayActive (run evs s0)) \<longrightarrow>
      spawned (run evs s0) \<noteq> []) \<and>
   (\<not> is_test_env w \<and> readGatewayInfo s = Some info \<and> pid_running w (pid info) \<and>
    probe_ok w (url info) (now s) \<and> write_fails w = None \<and> getSharedGatewayUrl s = None \<longrightarrow>
      fst (acquireSharedGateway w wd s) =
        Returned (Some \<lparr>acquired_url = url info, isShared = True\<rparr>) \<and>
      getSharedGatewayUrl (snd (acquireSharedGateway w wd s)) = None \<and>
      \<not> isSharedGatewayActive (snd (acquireSharedGateway w wd s)))"
proof (intro conjI impI)
  assume a: "module_loaded s0 \<and>
    (getSharedGatewayUrl (run evs s0) \<noteq> None \<or> isSharedGatewayActive (run evs s0))"
  then have "local_is_spawned (run evs s0)"
    using module_loaded_invariants [of s0] run_invariants [of s0 evs] by blast
  moreover from a have "localGatewayUrl (run evs s0) \<noteq> None \<or> localGatewayProcess (run evs s0) \<noteq> None"
    by (auto simp: getSharedGatewayUrl_def isSharedGatewayActive_def)
  ultimately show "spawned (run evs s0) \<noteq> []"
    by (rule local_is_spawned_url)
next
  assume a: "\<not> is_test_env w \<and> readGatewayInfo s = Some info \<and> pid_running w (pid info) \<and>
    probe_ok w (url info) (now s) \<and> write_fails w = None \<and> getSharedGatewayUrl s = None"
  then have fs: "gateway_fs s = File (Parsed info)"
    by (simp add: readGatewayInfo_Some_iff)
  have alive: "isGatewayAlive w info s = (True, s\<lparr>now := now s + probe_ms w (url info) (now s)\<rparr>)"
    using a by (simp add: isGatewayAlive_def isPidRunning_def isGatewayHealthy_def)
  have eq: "acquireSharedGateway w wd s =
      (Returned (Some \<lparr>acquired_url = url info, isShared = True\<rparr>),
       (cancelIdleShutdown
          (s\<lparr>now := now s + probe_ms w (url info) (now s),
             gateway_fs := File (Parsed (info\<lparr>refCount := refCount info + 1\<rparr>))\<rparr>))
        \<lparr>isCoordinatorInitialized := True\<rparr>)"
    using a fs alive
    by (simp add: acquireSharedGateway_def acquire_try_def ensureGatewayDir_def
        readGatewayInfo_def reuseGateway_def writeGatewayInfo_def)
  have url: "localGatewayUrl (cancelIdleShutdown x) = localGatewayUrl x" for x
    by (simp add: cancelIdleShutdown_def clearTimeout_def split: option.splits)
  show "fst (acquireSharedGateway w wd s) =
        Returned (Some \<lparr>acquired_url = url info, isShared = True\<rparr>)"
    by (simp add: eq)
  show "getSharedGatewayUrl (snd (acquireSharedGateway w wd s)) = None"
    using a by (simp add: eq getSharedGatewayUrl_def url)
  then show "\<not> isSharedGatewayActive (snd (acquireSharedGateway w wd s))"
    by (simp add: getSharedGatewayUrl_def isSharedGatewayActive_def)
qed

lemmas coordinator_defs = acquireSharedGateway_def acquire_try_def ensureGatewayDir_def
  readGatewayInfo_def isGatewayAlive_def isPidRunning_def reuseGateway_def startNewGateway_def
  writeGatewayInfo_def clearGatewayInfo_def cancelIdleShutdown_def clearTimeout_def
  setTimeout_def scheduleIdleShutdown_def releaseSharedGateway_def shutdownSharedGateway_def
  shutdownLocalGateway_def idleShutdownCallback_def fireTimer_def advanceClock_def
  is_test_env_def getSharedGatewayUrl_def isSharedGatewayActive_def
  GATEWAY_IDLE_TIMEOUT_MS_def

theorem local_gateway_only_where_launched_witness:
  "module_loaded joining_state \<and>
   fst (acquireSharedGateway example_world ''/proj'' joining_state) =
     Returned (Some \<lparr>acquired_url = ''http://127.0.0.1:8888'', isShared = True\<rparr>) \<and>
   getSharedGatewayUrl (snd (acquireSharedGateway example_world ''/proj'' joining_state)) = None \<and>
   \<not> isSharedGatewayActive (snd (acquireSharedGateway example_world ''/proj'' joining_state)) \<and>
   module_loaded initial_state \<and>
   getSharedGatewayUrl (run [(example_world, Acquire ''/proj'')] initial_state) =
     Some ''http://127.0.0.1:8888'' \<and>
   isSharedGatewayActive (run [(example_world, Acquire ''/proj'')] initial_state) \<and>
   map spawn_pid (spawned (run [(example_world, Acquire ''/proj'')] initial_state)) = [4242]"
proof -
  have 1: "module_loaded joining_state" "module_loaded initial_state"
    by (simp_all add: module_loaded_def host_defs)
  have 2: "\<not> is_test_env example_world \<and> readGatewayInfo joining_state = Some example_info \<and>
      pid_running example_world (pid example_info) \<and>
      probe_ok example_world (url example_info) (now joining_state) \<and>
      write_fails example_world = None \<and> getSharedGatewayUrl joining_state = None"
    by (simp add: host_defs coordinator_defs)
  have 3: "getSharedGatewayUrl (run [(example_world, Acquire ''/proj'')] initial_state) =
     Some ''http://127.0.0.1:8888''"
    "isSharedGatewayActive (run [(example_world, Acquire ''/proj'')] initial_state)"
    "map spawn_pid (spawned (run [(example_world, Acquire ''/proj'')] initial_state)) = [4242]"
    by (simp_all add: host_defs coordinator_defs launch_defs env_defs gateway_spawn_def)
  have 4: "url example_info = ''http://127.0.0.1:8888''"
    by (simp add: host_defs)
  from local_gateway_only_where_launched
    [of initial_state "[(example_world, Acquire ''/proj'')]" example_world joining_state
      example_info "''/proj''"] 1 2 3 4
  show ?thesis by simp
qed

subsection \<open>Stale records\<close>

lemma startNewGateway_outcome:
  "(\<exists>e. fst (startNewGateway w wd s) = Inl e \<and>
        gateway_fs (snd (startNewGateway w wd s)) = gateway_fs s) \<or>
   (\<exists>port p c.
        allocate_port w = Inr port \<and> spawn w = Inr p \<and>
        fst (startNewGateway w wd s) = Inr \<lparr>acquired_url = gateway_url port, isShared = True\<rparr> \<and>
        gateway_fs (snd (startNewGateway w wd s)) =
          File (Parsed \<lparr>url = gateway_url port, pid = p,
                        startedAt = now (snd (startNewGateway w wd s)), refCount = 1, cwd = wd\<rparr>) \<and>
        spawned (snd (startNewGateway w wd s)) = spawned s @ [c] \<and> spawn_pid c = p \<and>
        spawn_cwd c = wd \<and>
        localGatewayProcess (snd (startNewGateway w wd s)) = Some p \<and>
        localGatewayUrl (snd (startNewGateway w wd s)) = Some (gateway_url port) \<and>
        killed (snd (startNewGateway w wd s)) = killed s)"
  using startNewGateway_shape [of w wd s]
proof (elim disjE exE conjE)
  fix e
  assume "fst (startNewGateway w wd s) = Inl e"
    and "launch_failed_from s (snd (startNewGateway w wd s))"
  then show ?thesis by (auto dest: launch_failed_from_fields(1))
next
  fix e port p
  assume "fst (startNewGateway w wd s) = Inl e"
    and "launched_from w wd port p s (snd (startNewGateway w wd s))"
  then show ?thesis by (auto dest: launched_from_fields(1))
next
  fix port p s1
  assume pp: "allocate_port w = Inr port" "spawn w = Inr p"
    and l: "launched_from w wd port p s s1"
    and r: "fst (startNewGateway w wd s) = Inr \<lparr>acquired_url = gateway_url port, isShared = True\<rparr>"
    and s': "snd (startNewGateway w wd s) =
          s1\<lparr>gateway_fs :=
               File (Parsed \<lparr>url = gateway_url port, pid = p, startedAt = now s1,
                             refCount = 1, cwd = wd\<rparr>),
             isCoordinatorInitialized := True\<rparr>"
  from launched_from_fields(10) [OF l] obtain c where
    c: "spawned s1 = spawned s @ [c]" "spawn_pid c = p" "spawn_cwd c = wd" by blast
  show ?thesis
    using pp r c launched_from_fields(6,7,9) [OF l]
    by (intro disjI2 exI [of _ port] exI [of _ p] exI [of _ c]) (simp add: s')
qed

lemma startNewGateway_spawns:
  assumes "shell_config w = Inr (sh, e)"
    and "resolvePythonRuntime w wd (filterEnv e) = Inr (py, renv)"
    and "allocate_port w = Inr port"
    and "spawn w = Inr p"
  shows "spawned (snd (startNewGateway w wd s)) = spawned s @ [gateway_spawn w wd py renv port p]"
proof -
  let ?s0 = "s\<lparr>spawned := spawned s @ [gateway_spawn w wd py renv port p]\<rparr>"
  have eq: "startGatewayProcess w wd s = awaitGatewayHealthy w p (gateway_url port) (now s) ?s0"
    using assms by (rule startGatewayProcess_spawned)
  have "await_outcome w p (gateway_url port) (now s) ?s0
          (awaitGatewayHealthy w p (gateway_url port) (now s) ?s0)"
    by (rule awaitGatewayHealthy_outcome)
  from await_outcome_shape [OF this]
  have "spawned (snd (startGatewayProcess w wd s)) = spawned ?s0"
    by (auto simp: eq)
  then show ?thesis
    by (cases "startGatewayProcess w wd s")
      (auto simp: startNewGateway_def writeGatewayInfo_def split: sum.splits option.splits if_splits)
qed

text \<open>
  C3. Outside test mode, \<open>acquire\<close> reuses a stored record only when its pid is running
  and its health probe succeeds. When either check fails, \<open>acquire\<close> removes the record
  and goes on to launch: it does, a little later on the clock, exactly what it does with
  an empty store: where the runtime resolves, a port is allocated and the spawn succeeds,
  it spawns a gateway process. It then returns either null, with no record left in the store, or the
  URL of the process it has just spawned, whose record with reference count 1 it has
  stored; it never answers from the stale record.
\<close>

theorem stale_record_is_discarded:
  assumes "\<not> is_test_env w"
    and "readGatewayInfo s = Some info"
    and "\<not> (pid_running w (pid info) \<and> probe_ok w (url info) (now s))"
    and "\<not> unlink_fails w"
  shows
    "(\<exists>n. now s \<le> n \<and>
          acquireSharedGateway w wd s =
            acquireSharedGateway w wd (s\<lparr>now := n, gateway_fs := NoFile\<rparr>)) \<and>
     ((fst (acquireSharedGateway w wd s) = Returned None \<and>
       readGatewayInfo (snd (acquireSharedGateway w wd s)) = None) \<or>
      (\<exists>port p c.
         allocate_port w = Inr port \<and> spawn w = Inr p \<and>
         fst (acquireSharedGateway w wd s) =
           Returned (Some \<lparr>acquired_url = gateway_url port, isShared = True\<rparr>) \<and>
         readGatewayInfo (snd (acquireSharedGateway w wd s)) =
           Some \<lparr>url = gateway_url port, pid = p,
                 startedAt = now (snd (acquireSharedGateway w wd s)), refCount = 1, cwd = wd\<rparr> \<and>
         spawned (snd (acquireSharedGateway w wd s)) = spawned s @ [c] \<and> spawn_pid c = p \<and>
         getSharedGatewayUrl (snd (acquireSharedGateway w wd s)) = Some (gateway_url port))) \<and>
     (shell_config w = Inr (sh, e) \<and> resolvePythonRuntime w wd (filterEnv e) = Inr (py, renv) \<and>
      allocate_port w = Inr port' \<and> spawn w = Inr p' \<longrightarrow>
        spawned (snd (acquireSharedGateway w wd s)) =
          spawned s @ [gateway_spawn w wd py renv port' p'])"
    (is "?as_empty \<and> ?outcome \<and> ?launches")
proof -
  have fs: "gateway_fs s = File (Parsed info)"
    using assms(2) by (simp add: readGatewayInfo_Some_iff)
  obtain n where n: "now s \<le> n"
    and tr: "acquire_try w wd s = startNewGateway w wd (clearGatewayInfo w (s\<lparr>now := n\<rparr>))"
  proof (cases rule: acquire_try_cases [of s w wd])
    case (mkdir e)
    with fs show ?thesis by simp
  next
    case (reuse i)
    with assms(2,3) show ?thesis by simp
  next
    case (stale i m)
    then show ?thesis using that by blast
  next
    case fresh
    with assms(2) show ?thesis by simp
  qed
  let ?c = "s\<lparr>now := n, gateway_fs := NoFile\<rparr>"
  have cl: "clearGatewayInfo w (s\<lparr>now := n\<rparr>) = ?c"
    using fs assms(4) by (simp add: clearGatewayInfo_def)
  have "acquire_try w wd ?c = startNewGateway w wd ?c"
    by (simp add: acquire_try_def ensureGatewayDir_def readGatewayInfo_def)
  with tr cl have same: "acquire_try w wd s = acquire_try w wd ?c"
    by simp
  have "acquireSharedGateway w wd s = acquireSharedGateway w wd ?c"
    using assms(1) by (simp add: acquireSharedGateway_def same)
  with n have 1: ?as_empty by blast
  let ?N = "startNewGateway w wd ?c"
  have acq: "acquireSharedGateway w wd s =
      (case fst ?N of Inl e \<Rightarrow> Returned None | Inr r \<Rightarrow> Returned (Some r), snd ?N)"
    using assms(1) tr cl
    by (simp add: acquireSharedGateway_def split: prod.splits sum.splits)
  from startNewGateway_outcome [of w wd ?c] have 2: ?outcome
  proof (elim disjE exE conjE)
    fix e
    assume "fst ?N = Inl e" and "gateway_fs (snd ?N) = gateway_fs ?c"
    then show ?thesis
      by (intro disjI1) (simp add: acq readGatewayInfo_def)
  next
    fix port p c
    assume "allocate_port w = Inr port" "spawn w = Inr p"
      and "fst ?N = Inr \<lparr>acquired_url = gateway_url port, isShared = True\<rparr>"
      and "gateway_fs (snd ?N) =
          File (Parsed \<lparr>url = gateway_url port, pid = p,
                        startedAt = now (snd ?N), refCount = 1, cwd = wd\<rparr>)"
      and "spawned (snd ?N) = spawned ?c @ [c]" "spawn_pid c = p" "spawn_cwd c = wd"
      and "localGatewayProcess (snd ?N) = Some p"
      and "localGatewayUrl (snd ?N) = Some (gateway_url port)"
      and "killed (snd ?N) = killed ?c"
    then show ?thesis
      by (intro disjI2 exI [of _ port] exI [of _ p] exI [of _ c])
        (simp add: acq getSharedGatewayUrl_def)
  qed
  have 3: ?launches
  proof
    assume "shell_config w = Inr (sh, e) \<and> resolvePythonRuntime w wd (filterEnv e) = Inr (py, renv) \<and>
      allocate_port w = Inr port' \<and> spawn w = Inr p'"
    then have "shell_config w = Inr (sh, e)"
      "resolvePythonRuntime w wd (filterEnv e) = Inr (py, renv)"
      "allocate_port w = Inr port'" "spawn w = Inr p'"
      by simp_all
    then have "spawned (snd ?N) = spawned ?c @ [gateway_spawn w wd py renv port' p']"
      by (rule startNewGateway_spawns)
    then show "spawned (snd (acquireSharedGateway w wd s)) =
          spawned s @ [gateway_spawn w wd py renv port' p']"
      by (simp add: acq)
  qed
  from 1 2 3 show ?thesis by blast
qed

theorem stale_record_is_discarded_witness:
  "\<not> is_test_env stale_world \<and>
   readGatewayInfo joining_state = Some example_info \<and>
   \<not> pid_running stale_world (pid example_info) \<and>
   fst (acquireSharedGateway stale_world ''/proj'' joining_state) =
     Returned (Some \<lparr>acquired_url = ''http://127.0.0.1:9999'', isShared = True\<rparr>) \<and>
   readGatewayInfo (snd (acquireSharedGateway stale_world ''/proj'' joining_state)) =
     Some \<lparr>url = ''http://127.0.0.1:9999'', pid = 5150, startedAt = 5, refCount = 1,
           cwd = ''/proj''\<rparr> \<and>
   map spawn_pid (spawned (snd (acquireSharedGateway stale_world ''/proj'' joining_state))) =
     [5150]"
proof -
  have h: "\<not> is_test_env stale_world" "readGatewayInfo joining_state = Some example_info"
    "\<not> (pid_running stale_world (pid example_info) \<and>
        probe_ok stale_world (url example_info) (now joining_state))"
    "\<not> unlink_fails stale_world"
    by (simp_all add: host_defs coordinator_defs)
  note th = stale_record_is_discarded [OF h, of "''/proj''"]
  have c: "\<not> pid_running stale_world (pid example_info)"
    "fst (acquireSharedGateway stale_world ''/proj'' joining_state) =
     Returned (Some \<lparr>acquired_url = ''http://127.0.0.1:9999'', isShared = True\<rparr>)"
    "readGatewayInfo (snd (acquireSharedGateway stale_world ''/proj'' joining_state)) =
     Some \<lparr>url = ''http://127.0.0.1:9999'', pid = 5150, startedAt = 5, refCount = 1,
           cwd = ''/proj''\<rparr>"
    "map spawn_pid (spawned (snd (acquireSharedGateway stale_world ''/proj'' joining_state))) =
     [5150]"
    by (simp_all add: host_defs coordinator_defs launch_defs env_defs gateway_spawn_def)
  from th h c show ?thesis by simp
qed

subsection \<open>Idle shutdown\<close>






lemma clearTimeout_fields [simp]:
  "readGatewayInfo (clearTimeout t s) = readGatewayInfo s"
  "gateway_fs (clearTimeout t s) = gateway_fs s"
  "killed (clearTimeout t s) = killed s"
  "localGatewayProcess (clearTimeout t s) = localGatewayProcess s"
  "localGatewayUrl (clearTimeout t s) = localGatewayUrl s"
  by (simp_all add: clearTimeout_def readGatewayInfo_def)


lemma first_acquire_launches:
  "run [(example_world, Acquire ''/proj'')] initial_state = holding_state"
  by (simp add: host_defs coordinator_defs launch_defs env_defs gateway_spawn_def)


subsection \<open>Failures of acquisition\<close>

lemma acquire_fst:
  "fst (acquireSharedGateway w wd s) =
     (if is_test_env w then Returned None
      else case fst (acquire_try w wd s) of Inl e \<Rightarrow> Returned None | Inr r \<Rightarrow> Returned (Some r))"
  by (simp add: acquireSharedGateway_def split: prod.splits sum.splits)

lemma startNewGateway_fails:
  "fst (startGatewayProcess w wd s) = Inl e \<Longrightarrow> fst (startNewGateway w wd s) = Inl e"
  by (cases "startGatewayProcess w wd s") (simp add: startNewGateway_def)

lemma startNewGateway_write_fails:
  "write_fails w = Some e \<Longrightarrow> \<exists>e'. fst (startNewGateway w wd s) = Inl e'"
  by (cases "startGatewayProcess w wd s")
    (auto simp: startNewGateway_def writeGatewayInfo_def split: sum.splits)

lemma reuseGateway_write_fails:
  "write_fails w = Some e \<Longrightarrow> \<exists>e'. fst (reuseGateway w info s) = Inl e'"
  by (auto simp: reuseGateway_def writeGatewayInfo_def)

lemma acquire_try_write_fails:
  assumes "write_fails w = Some e"
  shows "\<exists>e'. fst (acquire_try w wd s) = Inl e'"
proof (cases rule: acquire_try_cases [of s w wd])
  case (mkdir e)
  then show ?thesis by simp
next
  case (reuse info)
  then show ?thesis using reuseGateway_write_fails [OF assms] by simp
next
  case (stale info n)
  then show ?thesis using startNewGateway_write_fails [OF assms] by simp
next
  case fresh
  then show ?thesis using startNewGateway_write_fails [OF assms] by simp
qed

lemma acquire_try_launch_fails:
  assumes nolive: "\<forall>i. readGatewayInfo s = Some i \<longrightarrow>
      \<not> (pid_running w (pid i) \<and> probe_ok w (url i) (now s))"
    and fails: "\<And>s0. \<exists>e. fst (startGatewayProcess w wd s0) = Inl e"
  shows "\<exists>e'. fst (acquire_try w wd s) = Inl e'"
proof -
  have new: "\<exists>e'. fst (startNewGateway w wd s0) = Inl e'" for s0
    using fails [of s0] startNewGateway_fails by blast
  show ?thesis
  proof (cases rule: acquire_try_cases [of s w wd])
    case (mkdir e)
    then show ?thesis by simp
  next
    case (reuse info)
    with nolive show ?thesis by blast
  next
    case (stale info n)
    then show ?thesis using new by simp
  next
    case fresh
    then show ?thesis using new by simp
  qed
qed

lemma launch_fails_unresolved:
  "shell_config w = Inr (sh, e0) \<Longrightarrow> resolvePythonRuntime w wd (filterEnv e0) = Inl e \<Longrightarrow>
   fst (startGatewayProcess w wd s0) = Inl e"
  by (simp add: startGatewayProcess_def)

lemma launch_fails_no_port:
  "allocate_port w = Inl e \<Longrightarrow> \<exists>e'. fst (startGatewayProcess w wd s0) = Inl e'"
  by (auto simp: startGatewayProcess_def split: sum.splits prod.splits)

lemma launch_fails_never_healthy:
  assumes "\<forall>u t. \<not> probe_ok w u t"
  shows "\<exists>e'. fst (startGatewayProcess w wd s0) = Inl e'"
  using startGatewayProcess_cases [of w wd s0] assms
  by (auto simp: await_outcome_def)

text \<open>
  C6. \<open>acquire\<close> never throws: it returns, and outside test mode it returns null exactly
  when its \<^verbatim>\<open>try\<close> block threw. So it returns null when the gateway directory cannot
  be made, when the store cannot be written, and, with no live record to reuse, when the
  runtime cannot be resolved, when no port can be allocated, or when the spawned process
  never answers the health probe (it exits, or the startup timeout elapses).
\<close>

theorem acquire_never_throws:
  "(\<forall>err. fst (acquireSharedGateway w wd s) \<noteq> Thrown err) \<and>
   (\<not> is_test_env w \<longrightarrow>
      (fst (acquireSharedGateway w wd s) = Returned None) = (\<exists>err. fst (acquire_try w wd s) = Inl err)) \<and>
   (gateway_fs s = NoDir \<and> mkdir_fails w = Some e \<longrightarrow>
      fst (acquireSharedGateway w wd s) = Returned None) \<and>
   (write_fails w = Some e \<longrightarrow> fst (acquireSharedGateway w wd s) = Returned None) \<and>
   ((\<forall>i. readGatewayInfo s = Some i \<longrightarrow> \<not> (pid_running w (pid i) \<and> probe_ok w (url i) (now s))) \<and>
    ((\<exists>sh e0. shell_config w = Inr (sh, e0) \<and> resolvePythonRuntime w wd (filterEnv e0) = Inl e) \<or>
     allocate_port w = Inl e \<or>
     (\<forall>u t. \<not> probe_ok w u t)) \<longrightarrow>
      fst (acquireSharedGateway w wd s) = Returned None)"
  (is "?never \<and> ?null \<and> ?mkdir \<and> ?unwritable \<and> ?launch")
proof -
  have 1: ?never
    by (simp add: acquire_fst split: sum.splits)
  have 2: ?null
    by (auto simp: acquire_fst split: sum.splits)
  have none: "fst (acquireSharedGateway w wd s) = Returned None"
    if "\<exists>err. fst (acquire_try w wd s) = Inl err"
    using that by (auto simp: acquire_fst)
  have 3: ?mkdir
  proof
    assume "gateway_fs s = NoDir \<and> mkdir_fails w = Some e"
    then have "fst (acquire_try w wd s) = Inl e"
      by (simp add: acquire_try_def ensureGatewayDir_def)
    then show "fst (acquireSharedGateway w wd s) = Returned None"
      by (intro none) blast
  qed
  have 4: ?unwritable
    using acquire_try_write_fails [of w e wd s] none by blast
  have 5: ?launch
  proof (intro impI, elim conjE)
    assume nolive: "\<forall>i. readGatewayInfo s = Some i \<longrightarrow>
        \<not> (pid_running w (pid i) \<and> probe_ok w (url i) (now s))"
      and why: "(\<exists>sh e0. shell_config w = Inr (sh, e0) \<and>
                  resolvePythonRuntime w wd (filterEnv e0) = Inl e) \<or>
        allocate_port w = Inl e \<or> (\<forall>u t. \<not> probe_ok w u t)"
    have "\<exists>e'. fst (startGatewayProcess w wd s0) = Inl e'" for s0
      using why launch_fails_unresolved [of w _ _ wd e s0] launch_fails_no_port [of w e wd s0]
        launch_fails_never_healthy [of w wd s0]
      by blast
    with nolive have "\<exists>e'. fst (acquire_try w wd s) = Inl e'"
      by (rule acquire_try_launch_fails)
    then show "fst (acquireSharedGateway w wd s) = Returned None"
      by (rule none)
  qed
  from 1 2 3 4 5 show ?thesis by blast
qed

theorem acquire_never_throws_witness:
  "fst (acquire_try (example_world\<lparr>which := (\<lambda>n. None)\<rparr>) ''/proj'' initial_state) =
     Inl PythonNotFound \<and>
   fst (acquireSharedGateway (example_world\<lparr>which := (\<lambda>n. None)\<rparr>) ''/proj'' initial_state) =
     Returned None \<and>
   fst (acquireSharedGateway (example_world\<lparr>allocate_port := Inl PortAllocationFailed\<rparr>)
          ''/proj'' initial_state) = Returned None \<and>
   fst (acquire_try silent_world ''/proj'' initial_state) = Inl GatewayStartupTimeout \<and>
   fst (acquireSharedGateway silent_world ''/proj'' initial_state) = Returned None \<and>
   fst (acquire_try crashing_world ''/proj'' initial_state) = Inl GatewayExited \<and>
   fst (acquireSharedGateway crashing_world ''/proj'' initial_state) = Returned None \<and>
   fst (acquireSharedGateway (example_world\<lparr>write_fails := Some (ExternalError ''EACCES'')\<rparr>)
          ''/proj'' joining_state) = Returned None \<and>
   fst (acquireSharedGateway (example_world\<lparr>mkdir_fails := Some (ExternalError ''EACCES'')\<rparr>)
          ''/proj'' initial_state) = Returned None"
proof -
  let ?nopy = "example_world\<lparr>which := (\<lambda>n. None)\<rparr>"
  let ?noport = "example_world\<lparr>allocate_port := Inl PortAllocationFailed\<rparr>"
  let ?nowrite = "example_world\<lparr>write_fails := Some (ExternalError ''EACCES'')\<rparr>"
  let ?nomkdir = "example_world\<lparr>mkdir_fails := Some (ExternalError ''EACCES'')\<rparr>"
  have t: "\<not> is_test_env ?nopy" "\<not> is_test_env silent_world" "\<not> is_test_env crashing_world"
    by (simp_all add: host_defs is_test_env_def)
  have a: "fst (acquire_try ?nopy ''/proj'' initial_state) = Inl PythonNotFound"
    by (simp add: host_defs coordinator_defs launch_defs env_defs)
  have b: "fst (acquire_try silent_world ''/proj'' initial_state) = Inl GatewayStartupTimeout"
    by (simp add: host_defs coordinator_defs launch_defs env_defs)
  have c: "fst (acquire_try crashing_world ''/proj'' initial_state) = Inl GatewayExited"
    by (simp add: host_defs coordinator_defs launch_defs env_defs)
  have d: "readGatewayInfo initial_state = None" "allocate_port ?noport = Inl PortAllocationFailed"
    "write_fails ?nowrite = Some (ExternalError ''EACCES'')"
    "gateway_fs initial_state = NoDir \<and> mkdir_fails ?nomkdir = Some (ExternalError ''EACCES'')"
    by (simp_all add: host_defs readGatewayInfo_def)
  note nopy = acquire_never_throws
    [where w = ?nopy and wd = "''/proj''" and s = initial_state,
      THEN conjunct2, THEN conjunct1, THEN mp, OF t(1)]
  note silent = acquire_never_throws
    [where w = silent_world and wd = "''/proj''" and s = initial_state,
      THEN conjunct2, THEN conjunct1, THEN mp, OF t(2)]
  note crashing = acquire_never_throws
    [where w = crashing_world and wd = "''/proj''" and s = initial_state,
      THEN conjunct2, THEN conjunct1, THEN mp, OF t(3)]
  note noport = acquire_never_throws
    [where w = ?noport and wd = "''/proj''" and s = initial_state and e = PortAllocationFailed,
      THEN conjunct2, THEN conjunct2, THEN conjunct2, THEN conjunct2]
  note nowrite = acquire_never_throws
    [where w = ?nowrite and wd = "''/proj''" and s = joining_state,
      THEN conjunct2, THEN conjunct2, THEN conjunct2, THEN conjunct1, THEN mp, OF d(3)]
  note nomkdir = acquire_never_throws
    [where w = ?nomkdir and wd = "''/proj''" and s = initial_state,
      THEN conjunct2, THEN conjunct2, THEN conjunct1, THEN mp, OF d(4)]
  have 1: "fst (acquireSharedGateway ?nopy ''/proj'' initial_state) = Returned None"
    using nopy a by blast
  have 2: "fst (acquireSharedGateway silent_world ''/proj'' initial_state) = Returned None"
    using silent b by blast
  have 3: "fst (acquireSharedGateway crashing_world ''/proj'' initial_state) = Returned None"
    using crashing c by blast
  have 4: "fst (acquireSharedGateway ?noport ''/proj'' initial_state) = Returned None"
    using noport d(1,2) by simp
  from a b c 1 2 3 4 nowrite nomkdir show ?thesis
    by simp
qed

subsection \<open>Test mode\<close>

lemma acquire_test_mode: "is_test_env w \<Longrightarrow> acquireSharedGateway w wd s = (Returned None, s)"
  by (simp add: acquireSharedGateway_def)

lemma release_module_loaded: "module_loaded s \<Longrightarrow> releaseSharedGateway w s = s"
  by (simp add: module_loaded_def releaseSharedGateway_def)

lemma shutdown_module_loaded:
  assumes "module_loaded s"
  shows "shutdownSharedGateway w s =
           (case readGatewayInfo s of Some i \<Rightarrow> clearGatewayInfo w s | None \<Rightarrow> s)"
proof -
  have same: "x\<lparr>isCoordinatorInitialized := False\<rparr> = x" if "\<not> isCoordinatorInitialized x" for x :: state
    using that by (cases x) simp
  have c: "cancelIdleShutdown s = s"
    using assms by (simp add: module_loaded_def cancelIdleShutdown_def)
  have l: "shutdownLocalGateway x = x" if "localGatewayProcess x = None" for x
    using that by (simp add: shutdownLocalGateway_def)
  have i: "\<not> isCoordinatorInitialized (clearGatewayInfo w s)" "\<not> isCoordinatorInitialized s"
    "localGatewayProcess (clearGatewayInfo w s) = None" "localGatewayProcess s = None"
    using assms by (simp_all add: module_loaded_def clearGatewayInfo_def split: gateway_fs.splits)
  show ?thesis
    by (cases "readGatewayInfo s") (simp_all add: shutdownSharedGateway_def c l i same)
qed

lemma module_loaded_clear [simp]: "module_loaded (clearGatewayInfo w s) = module_loaded s"
  by (simp add: module_loaded_def clearGatewayInfo_def split: gateway_fs.splits)

lemma module_loaded_shutdown: "module_loaded s \<Longrightarrow> module_loaded (shutdownSharedGateway w s)"
  by (simp add: shutdown_module_loaded split: option.splits)

lemma perform_test_mode:
  assumes "is_test_env w" "module_loaded s"
  shows "module_loaded (perform w ev s)"
proof (cases ev)
  case (Acquire wd)
  with assms show ?thesis by (simp add: acquire_test_mode)
next
  case Release
  with assms show ?thesis by (simp add: release_module_loaded)
next
  case Shutdown
  with assms show ?thesis by (simp add: module_loaded_shutdown)
next
  case (TimerFires t)
  with assms show ?thesis by (simp add: module_loaded_def fireTimer_def)
next
  case (ClockAdvances ms)
  with assms show ?thesis by (simp add: module_loaded_def advanceClock_def)
next
  case (OtherInvocationWrites fs)
  with assms show ?thesis by (simp add: module_loaded_def)
qed

lemma run_test_mode:
  "list_all (\<lambda>we. is_test_env (fst we)) evs \<Longrightarrow> module_loaded s \<Longrightarrow> module_loaded (run evs s)"
  by (induction evs arbitrary: s) (auto simp: perform_test_mode)


lemma clearGatewayInfo_cases:
  "clearGatewayInfo w s = s \<or> clearGatewayInfo w s = s\<lparr>gateway_fs := NoFile\<rparr>"
  by (simp add: clearGatewayInfo_def split: gateway_fs.splits)

lemma clearGatewayInfo_removes:
  "\<not> unlink_fails w \<Longrightarrow> readGatewayInfo (clearGatewayInfo w s) = None"
  by (simp add: clearGatewayInfo_def readGatewayInfo_def split: gateway_fs.splits)

text \<open>
  C7, as the code has it. Under the test-mode flag \<open>acquire\<close> returns null and changes
  nothing: no process is started, no record written or removed. The other operations do
  not test the flag. Through any history under the flag that starts with the module as
  loaded, the module stays as loaded, so that \<open>release\<close> changes nothing, \<open>getUrl\<close>
  returns null and \<open>isActive\<close> is false. \<open>shutdown\<close> is not disabled: it starts no
  process and writes no record, but it removes a stored record.
\<close>

theorem test_mode_disables_acquire_only:
  "(is_test_env w \<longrightarrow> acquireSharedGateway w wd s = (Returned None, s)) \<and>
   (list_all (\<lambda>we. is_test_env (fst we)) evs \<and> module_loaded s0 \<longrightarrow>
      module_loaded (run evs s0) \<and>
      releaseSharedGateway w (run evs s0) = run evs s0 \<and>
      getSharedGatewayUrl (run evs s0) = None \<and>
      \<not> isSharedGatewayActive (run evs s0) \<and>
      spawned (shutdownSharedGateway w (run evs s0)) = [] \<and>
      killed (shutdownSharedGateway w (run evs s0)) = [] \<and>
      (shutdownSharedGateway w (run evs s0) = run evs s0 \<or>
       shutdownSharedGateway w (run evs s0) = (run evs s0)\<lparr>gateway_fs := NoFile\<rparr>) \<and>
      (readGatewayInfo (run evs s0) \<noteq> None \<and> \<not> unlink_fails w \<longrightarrow>
         readGatewayInfo (shutdownSharedGateway w (run evs s0)) = None))"
  (is "?acquire \<and> ?rest")
proof -
  have 1: ?acquire by (simp add: acquire_test_mode)
  have 2: ?rest
  proof (intro impI, elim conjE)
    assume "list_all (\<lambda>we. is_test_env (fst we)) evs" and "module_loaded s0"
    then have ml: "module_loaded (run evs s0)" by (rule run_test_mode)
    let ?s = "run evs s0"
    have a: "releaseSharedGateway w ?s = ?s"
      using ml by (rule release_module_loaded)
    have b: "getSharedGatewayUrl ?s = None" "\<not> isSharedGatewayActive ?s"
      using ml by (simp_all add: module_loaded_def getSharedGatewayUrl_def isSharedGatewayActive_def)
    have ml': "module_loaded (shutdownSharedGateway w ?s)"
      using ml by (rule module_loaded_shutdown)
    then have c: "spawned (shutdownSharedGateway w ?s) = []" "killed (shutdownSharedGateway w ?s) = []"
      by (simp_all add: module_loaded_def)
    have d: "shutdownSharedGateway w ?s = ?s \<or>
       shutdownSharedGateway w ?s = ?s\<lparr>gateway_fs := NoFile\<rparr>"
      using clearGatewayInfo_cases [of w ?s]
      by (simp add: shutdown_module_loaded [OF ml] split: option.splits)
    have e: "readGatewayInfo ?s \<noteq> None \<and> \<not> unlink_fails w \<longrightarrow>
         readGatewayInfo (shutdownSharedGateway w ?s) = None"
      by (simp add: shutdown_module_loaded [OF ml] clearGatewayInfo_removes split: option.splits)
    from ml a b c d e show "module_loaded ?s \<and>
      releaseSharedGateway w ?s = ?s \<and>
      getSharedGatewayUrl ?s = None \<and>
      \<not> isSharedGatewayActive ?s \<and>
      spawned (shutdownSharedGateway w ?s) = [] \<and>
      killed (shutdownSharedGateway w ?s) = [] \<and>
      (shutdownSharedGateway w ?s = ?s \<or>
       shutdownSharedGateway w ?s = ?s\<lparr>gateway_fs := NoFile\<rparr>) \<and>
      (readGatewayInfo ?s \<noteq> None \<and> \<not> unlink_fails w \<longrightarrow>
         readGatewayInfo (shutdownSharedGateway w ?s) = None)"
      by (intro conjI)
  qed
  from 1 2 show ?thesis by (rule conjI)
qed

theorem test_mode_disables_acquire_only_witness:
  "is_test_env test_world \<and>
   acquireSharedGateway test_world ''/proj'' joining_state = (Returned None, joining_state) \<and>
   module_loaded joining_state \<and>
   run [(test_world, Acquire ''/proj''), (test_world, Release)] joining_state = joining_state \<and>
   releaseSharedGateway test_world joining_state = joining_state \<and>
   getSharedGatewayUrl joining_state = None \<and>
   shutdownSharedGateway test_world joining_state = joining_state\<lparr>gateway_fs := NoFile\<rparr>"
proof -
  have t: "is_test_env test_world"
    by (simp add: host_defs is_test_env_def)
  have ml: "module_loaded joining_state"
    by (simp add: module_loaded_def joining_state_def initial_state_def)
  have h: "list_all (\<lambda>we. is_test_env (fst we)) [(test_world, Acquire ''/proj''), (test_world, Release)] \<and>
      module_loaded joining_state"
    using t ml by simp
  note acq = test_mode_disables_acquire_only
    [where w = test_world and wd = "''/proj''" and s = joining_state,
      THEN conjunct1, THEN mp, OF t]
  note rest = test_mode_disables_acquire_only
    [where w = test_world and s0 = joining_state and
      evs = "[(test_world, Acquire ''/proj''), (test_world, Release)]",
      THEN conjunct2, THEN mp, OF h]
  have r: "run [(test_world, Acquire ''/proj''), (test_world, Release)] joining_state = joining_state"
    using acq by (simp add: release_module_loaded ml)
  have s: "shutdownSharedGateway test_world joining_state = joining_state\<lparr>gateway_fs := NoFile\<rparr>"
    unfolding shutdown_module_loaded [OF ml]
    by (simp add: joining_state_def initial_state_def readGatewayInfo_def clearGatewayInfo_def
        test_world_def example_world_def)
  have g: "getSharedGatewayUrl joining_state = None"
    using ml by (simp add: getSharedGatewayUrl_def module_loaded_def)
  from rest have "releaseSharedGateway test_world
      (run [(test_world, Acquire ''/proj''), (test_world, Release)] joining_state) =
      run [(test_world, Acquire ''/proj''), (test_world, Release)] joining_state"
    by blast
  then have rel: "releaseSharedGateway test_world joining_state = joining_state"
    by (simp only: r)
  from t acq ml r rel g s show ?thesis
    by (intro conjI)
qed

text \<open>
  C7 as stated fails: under the test-mode flag, in an invocation that has done nothing
  else, \<open>shutdown\<close> removes the record another invocation has stored.
\<close>

theorem shutdown_in_test_mode_counterexample:
  "is_test_env test_world \<and>
   module_loaded joining_state \<and>
   readGatewayInfo joining_state = Some example_info \<and>
   readGatewayInfo (shutdownSharedGateway test_world joining_state) = None \<and>
   gateway_fs (shutdownSharedGateway test_world joining_state) \<noteq> gateway_fs joining_state"
proof -
  have ml: "module_loaded joining_state"
    by (simp add: module_loaded_def joining_state_def initial_state_def)
  have "shutdownSharedGateway test_world joining_state = joining_state\<lparr>gateway_fs := NoFile\<rparr>"
    unfolding shutdown_module_loaded [OF ml]
    by (simp add: joining_state_def initial_state_def readGatewayInfo_def clearGatewayInfo_def
        test_world_def example_world_def)
  then show ?thesis
    using ml
    by (simp add: is_test_env_def test_world_def example_world_def joining_state_def
        readGatewayInfo_def)
qed

subsection \<open>Runtime resolution\<close>

lemma env_get_update:
  "env_get (AList.update k v e) k' = (if k' = k then v else env_get e k')"
  by (simp add: env_get_def update_conv')



lemma resolve_with_venv:
  assumes "(case env_get baseEnv ''VIRTUAL_ENV'' of Some v' \<Rightarrow> Some v' | None \<Rightarrow> resolveVenvPath w wd) = Some v"
    and "v \<noteq> []"
  shows "file_exists w (venv_python w v) \<Longrightarrow>
           resolvePythonRuntime w wd baseEnv =
             Inr (venv_python w v,
                  AList.update ''PATH''
                    (Some (case env_get baseEnv ''PATH'' of
                             None \<Rightarrow> venv_bin_dir w v
                           | Some p \<Rightarrow> if p = [] then venv_bin_dir w v
                                       else venv_bin_dir w v @ delimiter w @ p))
                    (AList.update ''VIRTUAL_ENV'' (Some v) baseEnv))"
    and "\<not> file_exists w (venv_python w v) \<Longrightarrow>
           resolvePythonRuntime w wd baseEnv =
             python_on_path w (AList.update ''VIRTUAL_ENV'' (Some v) baseEnv)"
  using assms by (simp_all add: resolvePythonRuntime_def Let_def env_get_update)

lemma resolve_without_venv:
  assumes "(case env_get baseEnv ''VIRTUAL_ENV'' of Some v' \<Rightarrow> Some v' | None \<Rightarrow> resolveVenvPath w wd) = None \<or>
           (case env_get baseEnv ''VIRTUAL_ENV'' of Some v' \<Rightarrow> Some v' | None \<Rightarrow> resolveVenvPath w wd) = Some []"
  shows "resolvePythonRuntime w wd baseEnv = python_on_path w baseEnv"
  using assms by (auto simp add: resolvePythonRuntime_def Let_def)




subsection \<open>The environment of the gateway process\<close>

lemma keys_update: "fst ` set (AList.update k v al) = insert k (fst ` set al)"
  by (simp add: dom_update)

lemma python_on_path_env: "python_on_path w e = Inr (py, renv) \<Longrightarrow> renv = e"
  by (auto simp: python_on_path_def split: option.splits if_splits)

lemma resolvePythonRuntime_keys:
  assumes r: "resolvePythonRuntime w wd baseEnv = Inr (py, renv)"
  shows "fst ` set renv \<subseteq> fst ` set baseEnv \<union> {''VIRTUAL_ENV'', ''PATH''}"
proof -
  let ?sel = "case env_get baseEnv ''VIRTUAL_ENV'' of Some v' \<Rightarrow> Some v'
              | None \<Rightarrow> resolveVenvPath w wd"
  consider "?sel = None \<or> ?sel = Some []" | v where "?sel = Some v" "v \<noteq> []"
    by (cases ?sel) auto
  then show ?thesis
  proof cases
    case 1
    then have "resolvePythonRuntime w wd baseEnv = python_on_path w baseEnv"
      by (rule resolve_without_venv)
    with r have "python_on_path w baseEnv = Inr (py, renv)"
      by simp
    then have "renv = baseEnv"
      by (rule python_on_path_env)
    then show ?thesis by blast
  next
    case (2 v)
    show ?thesis
    proof (cases "file_exists w (venv_python w v)")
      case True
      from resolve_with_venv(1) [OF 2 True] r
      have "fst ` set renv = insert ''PATH'' (insert ''VIRTUAL_ENV'' (fst ` set baseEnv))"
        by (auto simp only: keys_update sum.inject prod.inject)
      then show ?thesis by blast
    next
      case False
      from resolve_with_venv(2) [OF 2 False] r
      have "python_on_path w (AList.update ''VIRTUAL_ENV'' (Some v) baseEnv) = Inr (py, renv)"
        by simp
      then have "renv = AList.update ''VIRTUAL_ENV'' (Some v) baseEnv"
        by (rule python_on_path_env)
      then have "fst ` set renv = insert ''VIRTUAL_ENV'' (fst ` set baseEnv)"
        by (simp only: keys_update)
      then show ?thesis by blast
    qed
  qed
qed

lemma kernel_env_keys:
  "fst ` set (kernel_env w wd renv) \<subseteq>
     fst ` set renv \<union> {''PYTHONUNBUFFERED'', ''OMP_SHELL_SNAPSHOT'', ''PYTHONPATH''}"
proof -
  have "fst ` set (kernel_env w wd renv) \<subseteq>
      insert ''PYTHONPATH'' (insert ''OMP_SHELL_SNAPSHOT'' (insert ''PYTHONUNBUFFERED'' (fst ` set renv)))"
    unfolding kernel_env_def Let_def
    by (simp only: keys_update split: if_split) blast
  then show ?thesis by blast
qed

lemma denylist_not_added:
  "k \<in> set DEFAULT_ENV_DENYLIST \<Longrightarrow>
   k \<notin> {''VIRTUAL_ENV'', ''PATH'', ''PYTHONUNBUFFERED'', ''OMP_SHELL_SNAPSHOT'', ''PYTHONPATH''}"
  by (auto simp: DEFAULT_ENV_DENYLIST_def)

lemma startGatewayProcess_spawn_env:
  assumes "c \<in> set (spawned (snd (startGatewayProcess w wd s)))" "c \<notin> set (spawned s)"
  shows "\<exists>sh e py renv. shell_config w = Inr (sh, e) \<and>
           resolvePythonRuntime w wd (filterEnv e) = Inr (py, renv) \<and>
           spawn_env c = kernel_env w wd renv"
proof -
  from startGatewayProcess_cases [of w wd s] show ?thesis
  proof (elim disjE exE conjE)
    fix e
    assume "startGatewayProcess w wd s = (Inl e, s)"
    with assms show ?thesis by simp
  next
    fix sh e py renv port p
    assume pre: "shell_config w = Inr (sh, e)"
      "resolvePythonRuntime w wd (filterEnv e) = Inr (py, renv)"
      and out: "await_outcome w p (gateway_url port) (now s)
        (s\<lparr>spawned := spawned s @ [gateway_spawn w wd py renv port p]\<rparr>)
        (startGatewayProcess w wd s)"
    from await_outcome_shape [OF out]
    have "spawned (snd (startGatewayProcess w wd s)) =
        spawned s @ [gateway_spawn w wd py renv port p]"
      by auto
    with assms have "c = gateway_spawn w wd py renv port p"
      by simp
    then have "spawn_env c = kernel_env w wd renv"
      by (simp add: gateway_spawn_def)
    with pre show ?thesis by blast
  qed
qed

text \<open>
  C4. Whatever the input environment, a variable whose name is in the deny-list is not a
  key of the filtered environment. The deny-list is tested before the allow-list and the
  prefixes: the same holds with the name added to the allow-list and a prefix of the name
  added to the allowed prefixes. Nor is it a key of the environment any gateway process is
  spawned with.
\<close>

theorem filterEnv_drops_denylisted:
  "k \<in> set DEFAULT_ENV_DENYLIST \<Longrightarrow>
     k \<notin> fst ` set (filterEnv e) \<and>
     env_get (filterEnv e) k = None \<and>
     k \<notin> fst ` set (filterEnvWith DEFAULT_ENV_DENYLIST (k # allow) (take 1 k # prefixes) e) \<and>
     (\<forall>c \<in> set (spawned (snd (startGatewayProcess w wd s))).
        c \<in> set (spawned s) \<or> k \<notin> fst ` set (spawn_env c))"
proof -
  assume k: "k \<in> set DEFAULT_ENV_DENYLIST"
  have a: "k \<notin> fst ` set (filterEnv e')" for e'
    unfolding filterEnv_def using k by (rule filterEnvWith_deny)
  then have "map_of (filterEnv e) k = None"
    by (simp add: map_of_eq_None_iff)
  then have b: "env_get (filterEnv e) k = None"
    by (simp add: env_get_def)
  have c: "k \<notin> fst ` set (filterEnvWith DEFAULT_ENV_DENYLIST (k # allow) (take 1 k # prefixes) e)"
    using k by (rule filterEnvWith_deny)
  have d: "c \<in> set (spawned s) \<or> k \<notin> fst ` set (spawn_env c)"
    if "c \<in> set (spawned (snd (startGatewayProcess w wd s)))" for c
  proof (cases "c \<in> set (spawned s)")
    case True
    then show ?thesis by simp
  next
    case False
    from startGatewayProcess_spawn_env [OF that False] obtain sh e0 py renv where
      r: "resolvePythonRuntime w wd (filterEnv e0) = Inr (py, renv)"
      and env: "spawn_env c = kernel_env w wd renv"
      by blast
    have "fst ` set (spawn_env c) \<subseteq> fst ` set (filterEnv e0) \<union>
        {''VIRTUAL_ENV'', ''PATH'', ''PYTHONUNBUFFERED'', ''OMP_SHELL_SNAPSHOT'', ''PYTHONPATH''}"
      using resolvePythonRuntime_keys [OF r] kernel_env_keys [of w wd renv]
      unfolding env by blast
    with a [of e0] denylist_not_added [OF k] show ?thesis
      by blast
  qed
  from a [of e] b c d show ?thesis by blast
qed

theorem filterEnv_drops_denylisted_witness:
  "''OPENAI_API_KEY'' \<in> set DEFAULT_ENV_DENYLIST \<and>
   filterEnv [(''PATH'', Some ''/usr/bin''), (''OPENAI_API_KEY'', Some ''sk-1''),
              (''LC_TIME'', Some ''C''), (''SECRET'', Some ''x''), (''HOME'', None)] =
     [(''PATH'', Some ''/usr/bin''), (''LC_TIME'', Some ''C'')] \<and>
   ''OPENAI_API_KEY'' \<notin> fst ` set (filterEnv
       [(''PATH'', Some ''/usr/bin''), (''OPENAI_API_KEY'', Some ''sk-1''),
        (''LC_TIME'', Some ''C''), (''SECRET'', Some ''x''), (''HOME'', None)]) \<and>
   filterEnvWith DEFAULT_ENV_DENYLIST [''OPENAI_API_KEY''] [''O'']
       [(''OPENAI_API_KEY'', Some ''sk-1''), (''OMP_X'', Some ''1'')] = [(''OMP_X'', Some ''1'')] \<and>
   map (map fst \<circ> spawn_env) (spawned (snd (startGatewayProcess example_world ''/proj'' initial_state))) =
     [[''PATH'', ''HOME'', ''PYTHONUNBUFFERED'', ''OMP_SHELL_SNAPSHOT'', ''PYTHONPATH'']]"
proof -
  have k: "''OPENAI_API_KEY'' \<in> set DEFAULT_ENV_DENYLIST"
    by (simp add: DEFAULT_ENV_DENYLIST_def)
  note th = filterEnv_drops_denylisted [OF k,
      of "[(''PATH'', Some ''/usr/bin''), (''OPENAI_API_KEY'', Some ''sk-1''),
        (''LC_TIME'', Some ''C''), (''SECRET'', Some ''x''), (''HOME'', None)]"
        "[]" "[]" example_world "''/proj''" initial_state]
  have a: "filterEnv [(''PATH'', Some ''/usr/bin''), (''OPENAI_API_KEY'', Some ''sk-1''),
              (''LC_TIME'', Some ''C''), (''SECRET'', Some ''x''), (''HOME'', None)] =
     [(''PATH'', Some ''/usr/bin''), (''LC_TIME'', Some ''C'')]"
    by (simp add: env_defs)
  have b: "filterEnvWith DEFAULT_ENV_DENYLIST [''OPENAI_API_KEY''] [''O'']
       [(''OPENAI_API_KEY'', Some ''sk-1''), (''OMP_X'', Some ''1'')] = [(''OMP_X'', Some ''1'')]"
    by (simp add: env_defs)
  have c: "map (map fst \<circ> spawn_env)
      (spawned (snd (startGatewayProcess example_world ''/proj'' initial_state))) =
     [[''PATH'', ''HOME'', ''PYTHONUNBUFFERED'', ''OMP_SHELL_SNAPSHOT'', ''PYTHONPATH'']]"
    by (simp add: host_defs env_defs launch_defs gateway_spawn_def kernel_env_def)
  from th k a b c show ?thesis by simp
qed

subsection \<open>A run of the whole coordinator\<close>

text \<open>
  Two holders in one invocation on the concrete host: the first \<open>acquire\<close> launches,
  the second reuses; the stored count goes 1, 2, 1, 0; the second \<open>release\<close> arms the
  timer; once the idle timeout has passed the timer fires, the process tree of 4242 is
  killed and the file is gone.
\<close>

lemma two_holders_scenario:
  "map (\<lambda>n. map_option refCount (readGatewayInfo
       (run (take n
          [(example_world, Acquire ''/proj''), (example_world, Acquire ''/proj''),
           (example_world, Release), (example_world, Release),
           (example_world, ClockAdvances 30000), (example_world, TimerFires 0)])
        initial_state))) [1, 2, 3, 4, 5, 6] =
     [Some 1, Some 2, Some 1, Some 0, Some 0, None]"
  by (simp add: host_defs coordinator_defs launch_defs env_defs gateway_spawn_def
      killProcessTree_def take_Cons')

lemma two_holders_scenario_end:
  "killed (run
          [(example_world, Acquire ''/proj''), (example_world, Acquire ''/proj''),
           (example_world, Release), (example_world, Release),
           (example_world, ClockAdvances 30000), (example_world, TimerFires 0)]
        initial_state) = [4242] \<and>
   gateway_fs (run
          [(example_world, Acquire ''/proj''), (example_world, Acquire ''/proj''),
           (example_world, Release), (example_world, Release),
           (example_world, ClockAdvances 30000), (example_world, TimerFires 0)]
        initial_state) = NoFile \<and>
   timers (run
          [(example_world, Acquire ''/proj''), (example_world, Acquire ''/proj''),
           (example_world, Release)]
        initial_state) = [] \<and>
   timers (run
          [(example_world, Acquire ''/proj''), (example_world, Acquire ''/proj''),
           (example_world, Release), (example_world, Release)]
        initial_state) = [(0, 30010)]"
  by (simp add: host_defs coordinator_defs launch_defs env_defs gateway_spawn_def
      killProcessTree_def)

subsection \<open>Reuse\<close>



end
